theory Spec2Isabelle
  imports Complex_Main
begin

section \<open>Signal: feedback enrichment and retrieval-augmented chat\<close>

text \<open>
  A shallow embedding of the enrichment pipeline (\<^verbatim>\<open>app/services/cloudflare.py\<close>,
  \<^verbatim>\<open>app/api/feedback.py\<close>) and of the chat flow (\<^verbatim>\<open>app/api/chat.py\<close>).
  Every call to a managed service (model inference, vector index, relational store,
  queue, search index) is an input of the model: its outcome is either the exception it
  raised or the value it returned. A Python exception is the left summand of a sum type.
\<close>

subsection \<open>Errors and service responses\<close>

datatype error =
  UpstreamError          \<comment> \<open>the HTTP call raised (\<^verbatim>\<open>raise_for_status\<close>, transport, retries used up)\<close>
| Failed string          \<comment> \<open>\<^verbatim>\<open>raise Exception(f"Failed to ...")\<close>\<close>
| LookupError            \<comment> \<open>\<^verbatim>\<open>KeyError\<close>, \<^verbatim>\<open>IndexError\<close>, \<^verbatim>\<open>TypeError\<close> on a response of the wrong shape\<close>
| OverflowError          \<comment> \<open>\<^verbatim>\<open>OverflowError\<close>: an \<^verbatim>\<open>int\<close> too large to convert to \<^verbatim>\<open>float\<close>\<close>
| NotFound               \<comment> \<open>\<^verbatim>\<open>HTTPException(status_code=404)\<close>\<close>

text \<open>
  The JSON body of a model call: its \<^verbatim>\<open>success\<close> flag and its \<^verbatim>\<open>result\<close> member
  (\<open>None\<close> when the member is missing or null).
\<close>

datatype 'a api_result = ApiResult (success: bool) (result: "'a option")

subsection \<open>Python numbers\<close>

text \<open>
  A Python \<^verbatim>\<open>float\<close> is an IEEE-754 binary64 value: a finite one is a rational number
  (the sign of zero is not kept: no comparison sees it), the others are the two
  infinities and NaN.
\<close>

datatype py_float = Finite real | PosInf | NegInf | NaN

text \<open>The integer nearest to a real, a tie going to the even one.\<close>

definition round_half_even :: "real \<Rightarrow> int" where
  "round_half_even y =
     (let f = \<lfloor>y\<rfloor>; d = y - of_int f
      in if d < 1 / 2 then f else if d > 1 / 2 then f + 1
         else if even f then f else f + 1)"

fun bit_length :: "nat \<Rightarrow> nat" where
  "bit_length n = (if n = 0 then 0 else Suc (bit_length (n div 2)))"

declare bit_length.simps [simp del]

text \<open>The exponent \<open>e\<close> with \<open>2 ^ e \<le> \<bar>x\<bar> < 2 ^ (e + 1)\<close>, for \<open>x\<close> other than 0.\<close>

definition binade :: "real \<Rightarrow> int" where
  "binade x =
     (if \<bar>x\<bar> \<ge> 1 then int (bit_length (nat \<lfloor>\<bar>x\<bar>\<rfloor>)) - 1
      else - int (bit_length (nat (\<lceil>1 / \<bar>x\<bar>\<rceil> - 1))))"

definition pow2 :: "int \<Rightarrow> real" where
  "pow2 q = (if q \<ge> 0 then 2 ^ nat q else 1 / 2 ^ nat (- q))"

text \<open>
  Rounding to binary64, to nearest and ties to even: the value is rounded to a multiple
  of the spacing of its binade (53 significant bits, and no finer than \<open>2 ^ -1074\<close>); a
  result of magnitude \<open>2 ^ 1024\<close> is an infinity.
\<close>

definition double_of :: "real \<Rightarrow> py_float" where
  "double_of x =
     (if x = 0 then Finite 0
      else
        (let q = max (binade x - 52) (- 1074);
             v = of_int (round_half_even (x / pow2 q)) * pow2 q
         in if v \<ge> 2 ^ 1024 then PosInf
            else if v \<le> - (2 ^ 1024) then NegInf
            else Finite v))"

text \<open>Unary minus, subtraction and \<^verbatim>\<open><\<close> of floats.\<close>

fun float_neg :: "py_float \<Rightarrow> py_float" where
  "float_neg (Finite a) = Finite (- a)"
| "float_neg PosInf = NegInf"
| "float_neg NegInf = PosInf"
| "float_neg NaN = NaN"

fun float_sub :: "py_float \<Rightarrow> py_float \<Rightarrow> py_float" where
  "float_sub NaN _ = NaN"
| "float_sub _ NaN = NaN"
| "float_sub PosInf PosInf = NaN"
| "float_sub NegInf NegInf = NaN"
| "float_sub PosInf _ = PosInf"
| "float_sub NegInf _ = NegInf"
| "float_sub (Finite a) PosInf = NegInf"
| "float_sub (Finite a) NegInf = PosInf"
| "float_sub (Finite a) (Finite b) = double_of (a - b)"

fun float_less :: "py_float \<Rightarrow> py_float \<Rightarrow> bool" where
  "float_less NaN _ = False"
| "float_less _ NaN = False"
| "float_less (Finite a) (Finite b) = (a < b)"
| "float_less NegInf NegInf = False"
| "float_less NegInf _ = True"
| "float_less _ NegInf = False"
| "float_less PosInf _ = False"
| "float_less (Finite a) PosInf = True"

text \<open>
  A number of a decoded JSON body is an \<^verbatim>\<open>int\<close> (a literal with no fraction and no
  exponent, of any size) or a \<^verbatim>\<open>float\<close>. In a response body \<open>FloatNum (Finite x)\<close> is
  the literal of decimal value \<open>x\<close>, which \<^verbatim>\<open>response.json()\<close> reads as the float nearest
  to \<open>x\<close>.
\<close>

datatype number = IntNum int | FloatNum py_float

fun read_float :: "py_float \<Rightarrow> py_float" where
  "read_float (Finite x) = double_of x"
| "read_float f = f"

fun read_number :: "number \<Rightarrow> number" where
  "read_number (IntNum i) = IntNum i"
| "read_number (FloatNum f) = FloatNum (read_float f)"

text \<open>
  \<^verbatim>\<open>float(i)\<close> as arithmetic between an \<^verbatim>\<open>int\<close> and a \<^verbatim>\<open>float\<close> computes it: the nearest
  float, and \<^verbatim>\<open>OverflowError\<close> when there is no finite one.
\<close>

definition int_to_float :: "int \<Rightarrow> error + py_float" where
  "int_to_float i =
     (case double_of (of_int i) of
        Finite v \<Rightarrow> Inr (Finite v)
      | _ \<Rightarrow> Inl OverflowError)"

text \<open>
  \<^verbatim>\<open>a - b\<close>: exact between two \<^verbatim>\<open>int\<close>s; otherwise an \<^verbatim>\<open>int\<close> operand is converted and
  the floats are subtracted.
\<close>

fun num_sub :: "number \<Rightarrow> number \<Rightarrow> error + number" where
  "num_sub (IntNum a) (IntNum b) = Inr (IntNum (a - b))"
| "num_sub (IntNum a) (FloatNum g) =
     (case int_to_float a of Inl e \<Rightarrow> Inl e | Inr f \<Rightarrow> Inr (FloatNum (float_sub f g)))"
| "num_sub (FloatNum f) (IntNum b) =
     (case int_to_float b of Inl e \<Rightarrow> Inl e | Inr g \<Rightarrow> Inr (FloatNum (float_sub f g)))"
| "num_sub (FloatNum f) (FloatNum g) = Inr (FloatNum (float_sub f g))"

text \<open>
  \<^verbatim>\<open>a < b\<close>: Python compares an \<^verbatim>\<open>int\<close> with a \<^verbatim>\<open>float\<close> by their exact values, with no
  conversion.
\<close>

fun exact :: "number \<Rightarrow> py_float" where
  "exact (IntNum i) = Finite (of_int i)"
| "exact (FloatNum f) = f"

definition num_less :: "number \<Rightarrow> number \<Rightarrow> bool" where
  "num_less a b = float_less (exact a) (exact b)"

subsection \<open>Sentiment analysis\<close>

text \<open>
  \<^verbatim>\<open>next((s["score"] for s in scores if s["label"] == L), 0)\<close>: the score of the first
  entry labelled \<open>L\<close>, and the \<^verbatim>\<open>int\<close> 0 when there is none.
\<close>

fun first_score :: "string \<Rightarrow> (string \<times> number) list \<Rightarrow> number" where
  "first_score l [] = IntNum 0"
| "first_score l ((l', x) # scores) = (if l' = l then x else first_score l scores)"

text \<open>
  The threshold chain of \<^verbatim>\<open>analyze_sentiment\<close>, in the order of the source. A literal
  such as \<^verbatim>\<open>0.3\<close> is the float nearest to 3/10, and \<^verbatim>\<open>-0.5\<close> is the unary minus of the
  literal \<^verbatim>\<open>0.5\<close>.
\<close>

definition sentiment_label :: "number \<Rightarrow> string" where
  "sentiment_label score =
     (if num_less (FloatNum (double_of 0.3)) score then ''positive''
      else if num_less score (FloatNum (float_neg (double_of 0.5))) then ''frustrated''
      else if num_less score (FloatNum (float_neg (double_of 0.3))) then ''concerned''
      else if num_less score (FloatNum (float_neg (double_of 0.1))) then ''annoyed''
      else if num_less score (FloatNum (double_of 0.1)) then ''neutral''
      else ''positive'')"

record sentiment_result =
  sr_score :: number
  sr_label :: string
  sr_raw_scores :: "(string \<times> number) list"

text \<open>The score list as \<^verbatim>\<open>response.json()\<close> decodes it from the body.\<close>

definition read_scores :: "(string \<times> number) list \<Rightarrow> (string \<times> number) list" where
  "read_scores body = map (\<lambda>(l, x). (l, read_number x)) body"

text \<open>
  \<^verbatim>\<open>analyze_sentiment\<close> on the outcome of its model call. The payload is a list of score
  lists; \<^verbatim>\<open>result["result"][0]\<close> is the first, and an empty payload is falsy. The
  subtraction raises when an \<^verbatim>\<open>int\<close> score is too large for a float.
\<close>

definition analyze_sentiment ::
  "error + (string \<times> number) list list api_result \<Rightarrow> error + sentiment_result" where
  "analyze_sentiment call =
     (case call of
        Inl e \<Rightarrow> Inl e
      | Inr r \<Rightarrow>
          (case (success r, result r) of
             (True, Some (body # _)) \<Rightarrow>
               (let scores = read_scores body;
                    positive = first_score ''POSITIVE'' scores;
                    negative = first_score ''NEGATIVE'' scores
                in case num_sub positive negative of
                     Inl e \<Rightarrow> Inl e
                   | Inr score \<Rightarrow>
                       Inr \<lparr>sr_score = score, sr_label = sentiment_label score,
                            sr_raw_scores = scores\<rparr>)
           | _ \<Rightarrow> Inl (Failed ''analyze sentiment'')))"

text \<open>
  The bands as the specification words them: a list of tests tried in order, the first
  that holds decides, and \<open>positive\<close> when none holds. The score and the bounds are
  floats, a bound being the float its decimal denotes.
\<close>

definition above :: "real \<Rightarrow> number \<Rightarrow> bool" where
  "above bound s = num_less (FloatNum (double_of bound)) s"

definition below :: "real \<Rightarrow> number \<Rightarrow> bool" where
  "below bound s = num_less s (FloatNum (double_of bound))"

definition spec_bands :: "((number \<Rightarrow> bool) \<times> string) list" where
  "spec_bands =
     [(above 0.3, ''positive''),
      (below (-0.5), ''frustrated''),
      (below (-0.3), ''concerned''),
      (below (-0.1), ''annoyed''),
      (below 0.1, ''neutral'')]"

fun first_match :: "((number \<Rightarrow> bool) \<times> string) list \<Rightarrow> number \<Rightarrow> string" where
  "first_match [] s = ''positive''"
| "first_match ((p, l) # bands) s = (if p s then l else first_match bands s)"

subsection \<open>Python text primitives\<close>

text \<open>
  Text is a list of characters with code points below 256. \<^verbatim>\<open>str.strip()\<close> removes the
  characters Python counts as whitespace at both ends.
\<close>

definition py_isspace :: "char \<Rightarrow> bool" where
  "py_isspace c = (of_char c \<in> {9, 10, 11, 12, 13, 28, 29, 30, 31, 32, 133, 160 :: nat})"

definition py_strip :: "string \<Rightarrow> string" where
  "py_strip s = rev (dropWhile py_isspace (rev (dropWhile py_isspace s)))"

text \<open>\<^verbatim>\<open>str.lower()\<close>: the capital letters of the alphabet move 32 code points up.\<close>

definition py_lower_char :: "char \<Rightarrow> char" where
  "py_lower_char c =
     (let n = (of_char c :: nat)
      in if (65 \<le> n \<and> n \<le> 90) \<or> (192 \<le> n \<and> n \<le> 222 \<and> n \<noteq> 215)
         then char_of (n + 32) else c)"

definition py_lower :: "string \<Rightarrow> string" where
  "py_lower s = map py_lower_char s"

text \<open>
  \<^verbatim>\<open>int(s)\<close> on text: surrounding whitespace, an optional sign, then decimal digits
  that single underscores may separate. \<open>None\<close> stands for the \<^verbatim>\<open>ValueError\<close>.
\<close>

definition digit_of :: "char \<Rightarrow> int option" where
  "digit_of c =
     (let n = (of_char c :: nat)
      in if 48 \<le> n \<and> n \<le> 57 then Some (int n - 48) else None)"

fun py_digits :: "int \<Rightarrow> string \<Rightarrow> int option" where
  "py_digits acc [] = Some acc"
| "py_digits acc [c] =
     (case digit_of c of None \<Rightarrow> None | Some v \<Rightarrow> Some (10 * acc + v))"
| "py_digits acc (c # d # ds) =
     (if c = CHR ''_''
      then (case digit_of d of None \<Rightarrow> None | Some v \<Rightarrow> py_digits (10 * acc + v) ds)
      else (case digit_of c of None \<Rightarrow> None | Some v \<Rightarrow> py_digits (10 * acc + v) (d # ds)))"

definition py_int :: "string \<Rightarrow> int option" where
  "py_int s =
     (let t = py_strip s;
          negative = (case t of [] \<Rightarrow> False | c # _ \<Rightarrow> c = CHR ''-'');
          body = (case t of [] \<Rightarrow> [] | c # cs \<Rightarrow> if c = CHR ''-'' \<or> c = CHR ''+'' then cs else t)
      in case body of
           [] \<Rightarrow> None
         | d # ds \<Rightarrow>
             (case digit_of d of
                None \<Rightarrow> None
              | Some v \<Rightarrow> map_option (\<lambda>n. if negative then - n else n) (py_digits v ds)))"

subsection \<open>JSON decoding\<close>

text \<open>
  \<^verbatim>\<open>json.loads\<close> of the Python standard library, on text: the scanner's cases in the
  scanner's order. A decoded string is its list of code points (a \<^verbatim>\<open>\uXXXX\<close> escape can
  name any), a number keeps its literal, an object keeps its members in order. \<open>None\<close>
  stands for every exception the decoder raises. The recursion is bounded by a counter
  that starts above twice the length of the text, one step for each value and each
  element or member read. The interpreter's recursion limit, which turns very deep
  nesting into an exception, is not modelled.
\<close>

datatype json =
  JNull | JBool bool | JNum string | JStr "nat list" | JArr "json list"
| JObj "(nat list \<times> json) list"

definition json_ws :: "char \<Rightarrow> bool" where
  "json_ws c = (c = CHR '' '' \<or> c = CHR 0x09 \<or> c = CHR 0x0A \<or> c = CHR 0x0D)"

definition skip_ws :: "string \<Rightarrow> string" where
  "skip_ws s = dropWhile json_ws s"

definition is_digit :: "char \<Rightarrow> bool" where
  "is_digit c = (48 \<le> (of_char c :: nat) \<and> (of_char c :: nat) \<le> 57)"

definition hex_digit :: "char \<Rightarrow> nat option" where
  "hex_digit c =
     (let n = (of_char c :: nat)
      in if 48 \<le> n \<and> n \<le> 57 then Some (n - 48)
         else if 65 \<le> n \<and> n \<le> 70 then Some (n - 55)
         else if 97 \<le> n \<and> n \<le> 102 then Some (n - 87)
         else None)"

fun hex4 :: "string \<Rightarrow> nat option" where
  "hex4 (a # b # c # d # _) =
     (case (hex_digit a, hex_digit b, hex_digit c, hex_digit d) of
        (Some w, Some x, Some y, Some z) \<Rightarrow> Some (((w * 16 + x) * 16 + y) * 16 + z)
      | _ \<Rightarrow> None)"
| "hex4 _ = None"

definition escape_char :: "char \<Rightarrow> nat option" where
  "escape_char e =
     (if e = CHR 0x22 then Some 34
      else if e = CHR 0x5C then Some 92
      else if e = CHR ''/'' then Some 47
      else if e = CHR ''b'' then Some 8
      else if e = CHR ''f'' then Some 12
      else if e = CHR ''n'' then Some 10
      else if e = CHR ''r'' then Some 13
      else if e = CHR ''t'' then Some 9
      else None)"

definition low_surrogate :: "string \<Rightarrow> nat option" where
  "low_surrogate s =
     (case s of
        b # u # hs \<Rightarrow>
          (if b = CHR 0x5C \<and> u = CHR ''u''
           then (case hex4 hs of
                   Some m \<Rightarrow> if 0xDC00 \<le> m \<and> m \<le> 0xDFFF then Some m else None
                 | None \<Rightarrow> None)
           else None)
      | _ \<Rightarrow> None)"

function scanstring :: "string \<Rightarrow> nat list \<Rightarrow> (nat list \<times> string) option" where
  "scanstring [] acc = None"
| "scanstring (c # cs) acc =
     (if c = CHR 0x22 then Some (rev acc, cs)
      else if c = CHR 0x5C then
        (case cs of
           [] \<Rightarrow> None
         | e # es \<Rightarrow>
             if e = CHR ''u'' then
               (case hex4 es of
                  None \<Rightarrow> None
                | Some n \<Rightarrow>
                    (case (if 0xD800 \<le> n \<and> n \<le> 0xDBFF then low_surrogate (drop 4 es) else None) of
                       Some m \<Rightarrow>
                         scanstring (drop 10 es)
                           ((0x10000 + (n - 0xD800) * 1024 + (m - 0xDC00)) # acc)
                     | None \<Rightarrow> scanstring (drop 4 es) (n # acc)))
             else
               (case escape_char e of
                  None \<Rightarrow> None
                | Some k \<Rightarrow> scanstring es (k # acc)))
      else if (of_char c :: nat) < 32 then None
      else scanstring cs (of_char c # acc))"
  by pat_completeness auto
termination
  by (relation "measure (\<lambda>(s, acc). length s)") auto

definition scan_digits :: "string \<Rightarrow> string \<times> string" where
  "scan_digits s = (takeWhile is_digit s, dropWhile is_digit s)"

definition scan_number :: "string \<Rightarrow> (string \<times> string) option" where
  "scan_number s =
     (let (sign, s1) = (case s of c # cs \<Rightarrow> if c = CHR ''-'' then (''-'', cs) else ('''', s) | [] \<Rightarrow> ('''', s))
      in case s1 of
           [] \<Rightarrow> None
         | d # ds \<Rightarrow>
             if \<not> is_digit d then None
             else
               (let (ipart, s2) = (if d = CHR ''0'' then (''0'', ds) else scan_digits s1);
                    (frac, s3) =
                      (case s2 of
                         p # ps \<Rightarrow>
                           if p = CHR ''.'' \<and> fst (scan_digits ps) \<noteq> []
                           then (p # fst (scan_digits ps), snd (scan_digits ps))
                           else ('''', s2)
                       | [] \<Rightarrow> ('''', s2));
                    (expo, s4) =
                      (case s3 of
                         e # es \<Rightarrow>
                           if e = CHR ''e'' \<or> e = CHR ''E'' then
                             (let (sg, es') =
                                    (case es of
                                       g # gs \<Rightarrow>
                                         if g = CHR ''+'' \<or> g = CHR ''-'' then ([g], gs) else ('''', es)
                                     | [] \<Rightarrow> ('''', es))
                              in if fst (scan_digits es') \<noteq> []
                                 then (e # sg @ fst (scan_digits es'), snd (scan_digits es'))
                                 else ('''', s3))
                           else ('''', s3)
                       | [] \<Rightarrow> ('''', s3))
                in Some (sign @ ipart @ frac @ expo, s4)))"

definition starts_with :: "string \<Rightarrow> string \<Rightarrow> bool" where
  "starts_with p s = (take (length p) s = p)"

definition scan_constant :: "string \<Rightarrow> (json \<times> string) option" where
  "scan_constant s =
     (if starts_with ''null'' s then Some (JNull, drop 4 s)
      else if starts_with ''true'' s then Some (JBool True, drop 4 s)
      else if starts_with ''false'' s then Some (JBool False, drop 5 s)
      else
        (case scan_number s of
           Some (lit, rest) \<Rightarrow> Some (JNum lit, rest)
         | None \<Rightarrow>
             if starts_with ''NaN'' s then Some (JNum ''NaN'', drop 3 s)
             else if starts_with ''Infinity'' s then Some (JNum ''Infinity'', drop 8 s)
             else if starts_with ''-Infinity'' s then Some (JNum ''-Infinity'', drop 9 s)
             else None))"

fun scan_once :: "nat \<Rightarrow> string \<Rightarrow> (json \<times> string) option"
  and scan_array :: "nat \<Rightarrow> json list \<Rightarrow> string \<Rightarrow> (json \<times> string) option"
  and scan_object :: "nat \<Rightarrow> (nat list \<times> json) list \<Rightarrow> string \<Rightarrow> (json \<times> string) option"
where
  "scan_once 0 s = None"
| "scan_once (Suc n) s =
     (case s of
        [] \<Rightarrow> None
      | c # cs \<Rightarrow>
          if c = CHR 0x22 then
            (case scanstring cs [] of
               None \<Rightarrow> None
             | Some (str, rest) \<Rightarrow> Some (JStr str, rest))
          else if c = CHR ''{'' then
            (case skip_ws cs of
               [] \<Rightarrow> None
             | d # ds \<Rightarrow> if d = CHR ''}'' then Some (JObj [], ds) else scan_object n [] (d # ds))
          else if c = CHR ''['' then
            (case skip_ws cs of
               [] \<Rightarrow> None
             | d # ds \<Rightarrow> if d = CHR '']'' then Some (JArr [], ds) else scan_array n [] (d # ds))
          else scan_constant s)"
| "scan_array 0 acc s = None"
| "scan_array (Suc n) acc s =
     (case scan_once n s of
        None \<Rightarrow> None
      | Some (v, rest) \<Rightarrow>
          (case skip_ws rest of
             [] \<Rightarrow> None
           | c # cs \<Rightarrow>
               if c = CHR '']'' then Some (JArr (rev (v # acc)), cs)
               else if c = CHR '','' then scan_array n (v # acc) (skip_ws cs)
               else None))"
| "scan_object 0 acc s = None"
| "scan_object (Suc n) acc s =
     (case s of
        [] \<Rightarrow> None
      | q # qs \<Rightarrow>
          if q \<noteq> CHR 0x22 then None
          else
            (case scanstring qs [] of
               None \<Rightarrow> None
             | Some (k, rest) \<Rightarrow>
                 (case skip_ws rest of
                    [] \<Rightarrow> None
                  | c # cs \<Rightarrow>
                      if c \<noteq> CHR '':'' then None
                      else
                        (case scan_once n (skip_ws cs) of
                           None \<Rightarrow> None
                         | Some (v, rest') \<Rightarrow>
                             (case skip_ws rest' of
                                [] \<Rightarrow> None
                              | d # ds \<Rightarrow>
                                  if d = CHR ''}'' then Some (JObj (rev ((k, v) # acc)), ds)
                                  else if d = CHR '','' then scan_object n ((k, v) # acc) (skip_ws ds)
                                  else None)))))"

definition json_loads :: "string \<Rightarrow> json option" where
  "json_loads s =
     (case scan_once (2 * length s + 1) (skip_ws s) of
        None \<Rightarrow> None
      | Some (v, rest) \<Rightarrow> if skip_ws rest = [] then Some v else None)"

subsection \<open>Text generation, themes, urgency, embedding\<close>

text \<open>
  \<^verbatim>\<open>generate_text\<close> on the outcome of its model call. The payload of a truthy
  \<^verbatim>\<open>result\<close> is its \<^verbatim>\<open>response\<close> member, \<open>None\<close> when the member is missing.
\<close>

definition generate_text :: "error + string option api_result \<Rightarrow> error + string" where
  "generate_text call =
     (case call of
        Inl e \<Rightarrow> Inl e
      | Inr r \<Rightarrow>
          (case (success r, result r) of
             (True, Some payload) \<Rightarrow>
               (case payload of Some response \<Rightarrow> Inr response | None \<Rightarrow> Inl LookupError)
           | _ \<Rightarrow> Inl (Failed ''generate text'')))"

definition uncategorized :: "json list" where
  "uncategorized = [JStr (map of_char ''uncategorized'')]"

text \<open>
  \<^verbatim>\<open>classify_themes\<close>: the generation call is outside the \<^verbatim>\<open>try\<close>, the decoding
  inside; the bare \<^verbatim>\<open>except\<close> passes on to the fallback.
\<close>

definition classify_themes :: "error + string option api_result \<Rightarrow> error + json list" where
  "classify_themes call =
     (case generate_text call of
        Inl e \<Rightarrow> Inl e
      | Inr response \<Rightarrow>
          (case json_loads (py_strip response) of
             Some (JArr themes) \<Rightarrow> Inr themes
           | _ \<Rightarrow> Inr uncategorized))"

definition tier_default :: "string \<Rightarrow> int" where
  "tier_default tier =
     (if tier = ''enterprise'' then 7
      else if tier = ''pro'' then 5
      else if tier = ''free'' then 3
      else 5)"

definition calculate_urgency ::
  "error + string option api_result \<Rightarrow> string \<Rightarrow> error + int" where
  "calculate_urgency call customer_tier =
     (case generate_text call of
        Inl e \<Rightarrow> Inl e
      | Inr response \<Rightarrow>
          (case py_int (py_strip response) of
             Some n \<Rightarrow> Inr (max 1 (min 10 n))
           | None \<Rightarrow> Inr (tier_default (py_lower customer_tier))))"

text \<open>\<^verbatim>\<open>generate_embedding\<close>: \<^verbatim>\<open>result["result"]["data"][0]\<close>.\<close>

definition generate_embedding :: "error + real list list api_result \<Rightarrow> error + real list" where
  "generate_embedding call =
     (case call of
        Inl e \<Rightarrow> Inl e
      | Inr r \<Rightarrow>
          (case (success r, result r) of
             (True, Some []) \<Rightarrow> Inl LookupError
           | (True, Some (v # _)) \<Rightarrow> Inr v
           | _ \<Rightarrow> Inl (Failed ''generate embedding'')))"

text \<open>The fixed vocabulary of the classifier's prompt.\<close>

definition vocabulary :: "json list" where
  "vocabulary =
     map (\<lambda>w. JStr (map of_char w))
       [''performance'', ''reliability'', ''documentation'', ''pricing'', ''support'',
        ''feature-request'', ''bug'', ''security'', ''usability'', ''integration'']"

definition in_vocabulary :: "json list \<Rightarrow> bool" where
  "in_vocabulary themes = (list_all (\<lambda>t. t \<in> set vocabulary) themes \<or> themes = uncategorized)"

text \<open>Clamping into 1..10 as the specification words it.\<close>

definition clamp_1_10 :: "int \<Rightarrow> int" where
  "clamp_1_10 n = (if n < 1 then 1 else if n > 10 then 10 else n)"

subsection \<open>Creating feedback\<close>

datatype feedback_source = Github | Discord | Twitter | Support | Forum | Email

fun source_value :: "feedback_source \<Rightarrow> string" where
  "source_value Github = ''github''"
| "source_value Discord = ''discord''"
| "source_value Twitter = ''twitter''"
| "source_value Support = ''support''"
| "source_value Forum = ''forum''"
| "source_value Email = ''email''"

datatype customer_tier = Enterprise | Pro | Free | Unknown

fun tier_value :: "customer_tier \<Rightarrow> string" where
  "tier_value Enterprise = ''enterprise''"
| "tier_value Pro = ''pro''"
| "tier_value Free = ''free''"
| "tier_value Unknown = ''unknown''"

type_synonym metadata = "(string \<times> json) list"

text \<open>\<^verbatim>\<open>FeedbackCreate\<close>, the validated request body.\<close>

record feedback_create =
  fc_content :: string
  fc_source :: feedback_source
  fc_product :: "string option"
  fc_customer_id :: "string option"
  fc_customer_name :: "string option"
  fc_customer_tier :: "customer_tier option"
  fc_customer_arr :: "int option"
  fc_metadata :: "metadata option"

text \<open>The \<^verbatim>\<open>data\<close> dictionary: the row of the \<^verbatim>\<open>feedback\<close> table and the response.\<close>

record feedback_row =
  fb_id :: string
  fb_content :: string
  fb_source :: string
  fb_sentiment :: number
  fb_sentiment_label :: string
  fb_urgency :: int
  fb_product :: "string option"
  fb_themes :: "json list"
  fb_customer_id :: "string option"
  fb_customer_name :: "string option"
  fb_customer_tier :: "string option"
  fb_customer_arr :: "int option"
  fb_status :: string
  fb_metadata :: metadata
  fb_created_at :: string
  fb_updated_at :: string

record queue_message =
  qm_type :: string
  qm_feedback_id :: string
  qm_body :: feedback_create

record vector_record =
  vr_id :: string
  vr_values :: "real list"
  vr_source :: string
  vr_product :: "string option"
  vr_sentiment :: number
  vr_urgency :: int
  vr_customer_tier :: "string option"

text \<open>The stores behind the managed services: table, vector index, queue.\<close>

record backend =
  feedback_table :: "feedback_row list"
  vector_index :: "vector_record list"
  queue_messages :: "queue_message list"

text \<open>
  What the outside world answers during one \<^verbatim>\<open>create_feedback\<close>: the id drawn, the
  clock, and the outcome of each awaited call (a model call's outcome is that of the
  retried call).
\<close>

record create_services =
  new_uuid :: string
  created_clock :: string
  updated_clock :: string
  queue_send :: "error + unit"
  sentiment_call :: "error + (string \<times> number) list list api_result"
  themes_call :: "error + string option api_result"
  urgency_call :: "error + string option api_result"
  embedding_call :: "error + real list list api_result"
  d1_insert :: "error + unit"
  vectorize_insert :: "error + unit"

text \<open>
  \<^verbatim>\<open>create_feedback\<close>, statement by statement: the result is the response or the
  exception that ended the request, with the stores as the request left them.
\<close>

definition create_feedback ::
  "create_services \<Rightarrow> feedback_create \<Rightarrow> backend \<Rightarrow> (error + feedback_row) \<times> backend" where
  "create_feedback sv feedback st =
     (let feedback_id = new_uuid sv
      in case queue_send sv of
           Inl e \<Rightarrow> (Inl e, st)
         | Inr _ \<Rightarrow>
      (let st1 = st\<lparr>queue_messages := queue_messages st @
                  [\<lparr>qm_type = ''process_feedback'', qm_feedback_id = feedback_id,
                    qm_body = feedback\<rparr>]\<rparr>
       in case analyze_sentiment (sentiment_call sv) of
            Inl e \<Rightarrow> (Inl e, st1)
          | Inr sentiment_result \<Rightarrow>
       (case classify_themes (themes_call sv) of
            Inl e \<Rightarrow> (Inl e, st1)
          | Inr themes \<Rightarrow>
       (case calculate_urgency (urgency_call sv)
               (case fc_customer_tier feedback of Some t \<Rightarrow> tier_value t | None \<Rightarrow> ''free'') of
            Inl e \<Rightarrow> (Inl e, st1)
          | Inr urgency \<Rightarrow>
       (case generate_embedding (embedding_call sv) of
            Inl e \<Rightarrow> (Inl e, st1)
          | Inr embedding \<Rightarrow>
       (let data = \<lparr>fb_id = feedback_id, fb_content = fc_content feedback,
                    fb_source = source_value (fc_source feedback),
                    fb_sentiment = sr_score sentiment_result,
                    fb_sentiment_label = sr_label sentiment_result,
                    fb_urgency = urgency, fb_product = fc_product feedback,
                    fb_themes = themes, fb_customer_id = fc_customer_id feedback,
                    fb_customer_name = fc_customer_name feedback,
                    fb_customer_tier = map_option tier_value (fc_customer_tier feedback),
                    fb_customer_arr = fc_customer_arr feedback,
                    fb_status = ''new'',
                    fb_metadata = (case fc_metadata feedback of Some m \<Rightarrow> m | None \<Rightarrow> []),
                    fb_created_at = created_clock sv, fb_updated_at = updated_clock sv\<rparr>
        in case d1_insert sv of
             Inl e \<Rightarrow> (Inl e, st1)
           | Inr _ \<Rightarrow>
        (let st2 = st1\<lparr>feedback_table := feedback_table st1 @ [data]\<rparr>
         in case vectorize_insert sv of
              Inl e \<Rightarrow> (Inl e, st2)
            | Inr _ \<Rightarrow>
                (Inr data,
                 st2\<lparr>vector_index := vector_index st2 @
                   [\<lparr>vr_id = feedback_id, vr_values = embedding,
                     vr_source = source_value (fc_source feedback),
                     vr_product = fc_product feedback,
                     vr_sentiment = sr_score sentiment_result, vr_urgency = urgency,
                     vr_customer_tier =
                       map_option tier_value (fc_customer_tier feedback)\<rparr>]\<rparr>))))))))"

text \<open>\<^verbatim>\<open>get_feedback\<close>: the first row with the id, or the 404.\<close>

definition get_feedback :: "string \<Rightarrow> backend \<Rightarrow> error + feedback_row" where
  "get_feedback feedback_id st =
     (case filter (\<lambda>r. fb_id r = feedback_id) (feedback_table st) of
        [] \<Rightarrow> Inl NotFound
      | r # _ \<Rightarrow> Inr r)"

text \<open>A request and a world where every call succeeds, to run the pipeline on.\<close>

definition cold_start_request :: feedback_create where
  "cold_start_request =
     \<lparr>fc_content = ''Cold starts are unbearable'', fc_source = Github,
      fc_product = None, fc_customer_id = None, fc_customer_name = None,
      fc_customer_tier = Some Enterprise, fc_customer_arr = Some 250000,
      fc_metadata = None\<rparr>"

definition all_calls_succeed :: create_services where
  "all_calls_succeed =
     \<lparr>new_uuid = ''id-1'', created_clock = ''t0'', updated_clock = ''t1'',
      queue_send = Inr (),
      sentiment_call = Inr (ApiResult True (Some
        [[(''NEGATIVE'', FloatNum (Finite 0.9)), (''POSITIVE'', FloatNum (Finite 0.1))]])),
      themes_call = Inr (ApiResult True (Some (Some ''[\"performance\"]''))),
      urgency_call = Inr (ApiResult True (Some (Some ''8''))),
      embedding_call = Inr (ApiResult True (Some [[0.5, 0.25]])),
      d1_insert = Inr (), vectorize_insert = Inr ()\<rparr>"

definition empty_backend :: backend where
  "empty_backend = \<lparr>feedback_table = [], vector_index = [], queue_messages = []\<rparr>"

subsection \<open>Chat: retrieved rows and documents\<close>

text \<open>
  A member of a decoded JSON object as \<^verbatim>\<open>dict.get\<close> sees it: missing, present and
  null, or present with a value. \<^verbatim>\<open>d.get(k, default)\<close> gives the default only when the
  key is missing.
\<close>

datatype 'a field = Missing | Null | Val 'a

fun get_or :: "'a field \<Rightarrow> 'a \<Rightarrow> 'a option" where
  "get_or Missing d = Some d"
| "get_or Null d = None"
| "get_or (Val v) d = Some v"

datatype py_value = PyNone | PyStr string | PyInt int | PyFloat py_float

type_synonym py_dict = "(string \<times> py_value) list"

fun opt_str :: "string option \<Rightarrow> py_value" where
  "opt_str None = PyNone"
| "opt_str (Some s) = PyStr s"

fun opt_int :: "int option \<Rightarrow> py_value" where
  "opt_int None = PyNone"
| "opt_int (Some i) = PyInt i"

fun num_value :: "number \<Rightarrow> py_value" where
  "num_value (IntNum i) = PyInt i"
| "num_value (FloatNum f) = PyFloat f"

text \<open>A document of the managed search index, and a match of the vector index.\<close>

record search_doc =
  doc_id :: "string field"
  doc_content :: "string field"
  doc_metadata :: "py_dict field"
  doc_score :: "real field"

record vector_match =
  vm_id :: string
  vm_score :: "real field"

text \<open>Rows of the \<^verbatim>\<open>themes\<close> table and of the statistics query, by their columns.\<close>

record theme_row =
  th_id :: string
  th_theme :: string
  th_mentions :: "int option"
  th_summary :: "string option"
  th_products :: "string option"
  th_sentiment :: "string option"

record stats_row =
  st_total :: int
  st_avg_sentiment :: "real option"
  st_critical :: int

text \<open>\<^verbatim>\<open>ChatSource\<close> and an entry of the \<^verbatim>\<open>context\<close> list.\<close>

record chat_source =
  cs_type :: string
  cs_id :: string
  cs_title :: string
  cs_relevance :: real

record context_item =
  ci_type :: string
  ci_content :: "string option"
  ci_metadata :: "py_dict option"

subsection \<open>Chat: formatting\<close>

text \<open>\<^verbatim>\<open>str\<close> of an integer, and the format \<^verbatim>\<open>:.2f\<close> (round half to even).\<close>

fun show_nat :: "nat \<Rightarrow> string" where
  "show_nat n = (if n < 10 then [char_of (48 + n)] else show_nat (n div 10) @ [char_of (48 + n mod 10)])"

declare show_nat.simps [simp del]

definition py_str_int :: "int \<Rightarrow> string" where
  "py_str_int i = (if i < 0 then CHR ''-'' # show_nat (nat (- i)) else show_nat (nat i))"

definition format_2f :: "real \<Rightarrow> string" where
  "format_2f x =
     (let n = nat (round_half_even (\<bar>x\<bar> * 100))
      in (if x < 0 then ''-'' else '''') @ show_nat (n div 100) @ ''.'' @
         [char_of (48 + n mod 100 div 10), char_of (48 + n mod 10)])"

fun str_opt_int :: "int option \<Rightarrow> string" where
  "str_opt_int None = ''None''"
| "str_opt_int (Some i) = py_str_int i"

fun str_opt :: "string option \<Rightarrow> string" where
  "str_opt None = ''None''"
| "str_opt (Some s) = s"


subsection \<open>Chat: context retrieval\<close>

type_synonym gathered = "context_item list \<times> chat_source list"

text \<open>
  A \<^verbatim>\<open>for\<close> loop whose body may raise: the accumulators are mutated in place, so an
  exception leaves them as the completed statements made them.
\<close>

fun run_loop ::
  "(gathered \<Rightarrow> 'a \<Rightarrow> error option \<times> gathered) \<Rightarrow> gathered \<Rightarrow> 'a list \<Rightarrow> error option \<times> gathered" where
  "run_loop step acc [] = (None, acc)"
| "run_loop step acc (x # xs) =
     (case step acc x of
        (Some e, acc') \<Rightarrow> (Some e, acc')
      | (None, acc') \<Rightarrow> run_loop step acc' xs)"

text \<open>\<^verbatim>\<open>try: ... except: pass\<close>: whatever ended the block, go on with the accumulators.\<close>

definition except_pass :: "error option \<times> gathered \<Rightarrow> gathered" where
  "except_pass r = snd r"

text \<open>
  The \<^verbatim>\<open>ChatSource\<close> of a search document. The arguments are evaluated before the
  model validates them; a null where text or a number is needed raises.
\<close>

definition search_source :: "search_doc \<Rightarrow> error + chat_source" where
  "search_source doc =
     (case get_or (doc_metadata doc) [] of
        None \<Rightarrow> Inl LookupError
      | Some md \<Rightarrow>
          (case get_or (doc_content doc) '''' of
             None \<Rightarrow> Inl LookupError
           | Some c \<Rightarrow>
               (case (case map_of md ''type'' of None \<Rightarrow> PyStr ''feedback'' | Some v \<Rightarrow> v,
                      get_or (doc_id doc) '''', get_or (doc_score doc) 0) of
                  (PyStr t, Some i, Some r) \<Rightarrow>
                    Inr \<lparr>cs_type = t, cs_id = i, cs_title = take 50 c @ ''...'',
                         cs_relevance = r\<rparr>
                | _ \<Rightarrow> Inl LookupError)))"

definition search_step :: "gathered \<Rightarrow> search_doc \<Rightarrow> error option \<times> gathered" where
  "search_step acc doc =
     (let context_items = fst acc @
            [\<lparr>ci_type = ''ai_search'', ci_content = get_or (doc_content doc) '''',
              ci_metadata = get_or (doc_metadata doc) []\<rparr>]
      in case search_source doc of
           Inl e \<Rightarrow> (Some e, (context_items, snd acc))
         | Inr s \<Rightarrow> (None, (context_items, snd acc @ [s])))"

text \<open>
  \<^verbatim>\<open>next((r.get("score", 0.8) for r in vector_results if r["id"] == item["id"]), 0.8)\<close>
\<close>

fun match_score :: "vector_match list \<Rightarrow> string \<Rightarrow> real option" where
  "match_score [] i = Some 0.8"
| "match_score (r # rs) i = (if vm_id r = i then get_or (vm_score r) 0.8 else match_score rs i)"

definition feedback_step ::
  "vector_match list \<Rightarrow> gathered \<Rightarrow> feedback_row \<Rightarrow> error option \<times> gathered" where
  "feedback_step vector_results acc item =
     (let context_items = fst acc @
            [\<lparr>ci_type = ''feedback'', ci_content = Some (fb_content item),
              ci_metadata = Some
                [(''source'', PyStr (fb_source item)), (''product'', opt_str (fb_product item)),
                 (''sentiment'', num_value (fb_sentiment item)),
                 (''urgency'', PyInt (fb_urgency item)),
                 (''customer_name'', opt_str (fb_customer_name item)),
                 (''customer_tier'', opt_str (fb_customer_tier item))]\<rparr>]
      in case match_score vector_results (fb_id item) of
           None \<Rightarrow> (Some LookupError, (context_items, snd acc))
         | Some score \<Rightarrow>
             (None,
              (context_items,
               snd acc @
                 [\<lparr>cs_type = ''feedback'', cs_id = fb_id item,
                   cs_title = take 50 (fb_content item) @ ''...'', cs_relevance = score\<rparr>])))"

definition theme_step :: "gathered \<Rightarrow> theme_row \<Rightarrow> error option \<times> gathered" where
  "theme_step acc theme =
     (None,
      (fst acc @
         [\<lparr>ci_type = ''theme'',
           ci_content = Some (''Theme: '' @ th_theme theme @ '' with '' @
             str_opt_int (th_mentions theme) @ '' mentions. '' @ str_opt (th_summary theme)),
           ci_metadata = Some
             [(''mentions'', opt_int (th_mentions theme)),
              (''products'', opt_str (th_products theme)),
              (''sentiment'', opt_str (th_sentiment theme))]\<rparr>],
       snd acc @
         [\<lparr>cs_type = ''theme'', cs_id = th_id theme, cs_title = th_theme theme,
           cs_relevance = 0.9\<rparr>]))"

text \<open>
  What the outside world answers during one chat request. The generation outcome is a
  function of the composed prompt and of the context the system prompt is built from.
\<close>

record chat_services =
  chat_uuid :: string
  ai_search_call :: "error + search_doc list"
  query_embedding_call :: "error + real list list api_result"
  vectorize_query :: "error + vector_match list"
  feedback_query :: "error + feedback_row list"
  themes_query :: "error + theme_row list"
  stats_query :: "error + stats_row list"
  generation_call :: "string \<Rightarrow> context_item list \<Rightarrow> error + string option api_result"

text \<open>The four \<^verbatim>\<open>try\<close> blocks of \<^verbatim>\<open>retrieve_context\<close>, each from the accumulators it finds.\<close>

definition search_block :: "chat_services \<Rightarrow> gathered \<Rightarrow> error option \<times> gathered" where
  "search_block sv acc =
     (case ai_search_call sv of
        Inl e \<Rightarrow> (Some e, acc)
      | Inr ai_results \<Rightarrow> run_loop search_step acc ai_results)"

definition vector_block :: "chat_services \<Rightarrow> gathered \<Rightarrow> error option \<times> gathered" where
  "vector_block sv acc =
     (case generate_embedding (query_embedding_call sv) of
        Inl e \<Rightarrow> (Some e, acc)
      | Inr embedding \<Rightarrow>
          (case vectorize_query sv of
             Inl e \<Rightarrow> (Some e, acc)
           | Inr vector_results \<Rightarrow>
               if vector_results = [] then (None, acc)
               else
                 (case feedback_query sv of
                    Inl e \<Rightarrow> (Some e, acc)
                  | Inr feedback_items \<Rightarrow>
                      run_loop (feedback_step vector_results) acc feedback_items)))"

definition theme_block :: "chat_services \<Rightarrow> gathered \<Rightarrow> error option \<times> gathered" where
  "theme_block sv acc =
     (case themes_query sv of
        Inl e \<Rightarrow> (Some e, acc)
      | Inr themes \<Rightarrow> run_loop theme_step acc themes)"

definition stats_block :: "chat_services \<Rightarrow> gathered \<Rightarrow> error option \<times> gathered" where
  "stats_block sv acc =
     (case stats_query sv of
        Inl e \<Rightarrow> (Some e, acc)
      | Inr [] \<Rightarrow> (None, acc)
      | Inr (row # _) \<Rightarrow>
          (case st_avg_sentiment row of
             None \<Rightarrow> (Some LookupError, acc)
           | Some avg \<Rightarrow>
               (None,
                (fst acc @
                   [\<lparr>ci_type = ''statistics'',
                     ci_content = Some (''Last 7 days: '' @ py_str_int (st_total row) @
                       '' feedback, avg sentiment '' @ format_2f avg @ '', '' @
                       py_str_int (st_critical row) @ '' critical alerts.''),
                     ci_metadata = Some
                       [(''total'', PyInt (st_total row)), (''avg_sentiment'', PyFloat (Finite avg)),
                        (''critical'', PyInt (st_critical row))]\<rparr>],
                 snd acc))))"

text \<open>
  \<^verbatim>\<open>[s for s in sources if not (s.id in seen or seen.add(s.id))]\<close>: a source is kept when
  its id is not in \<open>seen\<close>, and its id is then added.
\<close>

fun unique_sources :: "string set \<Rightarrow> chat_source list \<Rightarrow> chat_source list" where
  "unique_sources seen [] = []"
| "unique_sources seen (s # sources) =
     (if cs_id s \<in> seen then unique_sources seen sources
      else s # unique_sources (insert (cs_id s) seen) sources)"

definition gather :: "chat_services \<Rightarrow> gathered" where
  "gather sv =
     except_pass (stats_block sv
       (except_pass (theme_block sv
         (except_pass (vector_block sv
           (except_pass (search_block sv ([], []))))))))"

definition retrieve_context :: "chat_services \<Rightarrow> context_item list \<times> chat_source list" where
  "retrieve_context sv =
     (let (context_items, sources) = gather sv
      in (context_items, take 10 (unique_sources {} sources)))"

subsection \<open>Chat: sessions\<close>

record chat_turn =
  turn_role :: string
  turn_content :: string

type_synonym conversations = "string \<rightharpoonup> chat_turn list"

record chat_request =
  cr_message :: string
  cr_conversation_id :: "string option"

record chat_response =
  rs_message :: string
  rs_sources :: "chat_source list"
  rs_conversation_id :: string

text \<open>\<^verbatim>\<open>xs[-n:]\<close> for a positive \<open>n\<close>: the last \<open>n\<close> elements, all of them when fewer.\<close>

definition last_n :: "nat \<Rightarrow> 'a list \<Rightarrow> 'a list" where
  "last_n n xs = drop (length xs - n) xs"

text \<open>\<^verbatim>\<open>request.conversation_id or str(uuid.uuid4())\<close>: an empty id is falsy.\<close>

definition conversation_id_of :: "chat_services \<Rightarrow> chat_request \<Rightarrow> string" where
  "conversation_id_of sv request =
     (case cr_conversation_id request of
        None \<Rightarrow> chat_uuid sv
      | Some c \<Rightarrow> if c = [] then chat_uuid sv else c)"

fun join_lines :: "string list \<Rightarrow> string" where
  "join_lines [] = []"
| "join_lines [l] = l"
| "join_lines (l # ls) = l @ [CHR 0x0A] @ join_lines ls"

definition history_line :: "chat_turn \<Rightarrow> string" where
  "history_line m =
     (if turn_role m = ''user'' then ''User'' else ''Assistant'') @ '': '' @ turn_content m"

definition full_prompt :: "string \<Rightarrow> chat_turn list \<Rightarrow> string" where
  "full_prompt message history =
     (if history = [] then message
      else ''Previous:'' @ [CHR 0x0A] @ join_lines (map history_line history) @
           [CHR 0x0A, CHR 0x0A] @ ''User: '' @ message)"

text \<open>
  \<^verbatim>\<open>send_chat_message\<close>: the response or the exception, with the session map as the
  request left it. \<^verbatim>\<open>conversations[conversation_id]\<close> raises on a missing key.
\<close>

definition send_chat_message ::
  "chat_services \<Rightarrow> chat_request \<Rightarrow> conversations \<Rightarrow> (error + chat_response) \<times> conversations" where
  "send_chat_message sv request convs =
     (let conversation_id = conversation_id_of sv request;
          convs1 = (case convs conversation_id of
                      None \<Rightarrow> convs(conversation_id \<mapsto> [])
                    | Some _ \<Rightarrow> convs);
          (context_items, sources) = retrieve_context sv
      in case convs1 conversation_id of
           None \<Rightarrow> (Inl LookupError, convs1)
         | Some stored \<Rightarrow>
             (let history = last_n 10 stored
              in case generate_text
                        (generation_call sv (full_prompt (cr_message request) history)
                           context_items) of
                   Inl e \<Rightarrow> (Inl e, convs1)
                 | Inr response \<Rightarrow>
                     (let turns = stored @
                            [\<lparr>turn_role = ''user'', turn_content = cr_message request\<rparr>,
                             \<lparr>turn_role = ''assistant'', turn_content = response\<rparr>]
                      in (Inr \<lparr>rs_message = response, rs_sources = sources,
                               rs_conversation_id = conversation_id\<rparr>,
                          convs1(conversation_id \<mapsto>
                            (if length turns > 50 then last_n 50 turns else turns))))))"

definition get_chat_history :: "string \<Rightarrow> conversations \<Rightarrow> error + chat_turn list" where
  "get_chat_history conversation_id convs =
     (case convs conversation_id of
        None \<Rightarrow> Inl NotFound
      | Some turns \<Rightarrow> Inr turns)"

definition clear_chat_history :: "string \<Rightarrow> conversations \<Rightarrow> conversations" where
  "clear_chat_history conversation_id convs = convs(conversation_id := None)"

text \<open>First occurrence wins, stable order, as the specification words it.\<close>

fun first_occurrences :: "chat_source list \<Rightarrow> chat_source list" where
  "first_occurrences [] = []"
| "first_occurrences (s # sources) =
     s # first_occurrences (filter (\<lambda>t. cs_id t \<noteq> cs_id s) sources)"

text \<open>A source with a given id and title, for examples.\<close>

definition source_with_id :: "string \<Rightarrow> string \<Rightarrow> chat_source" where
  "source_with_id i t = \<lparr>cs_type = ''feedback'', cs_id = i, cs_title = t, cs_relevance = 0.8\<rparr>"

subsection \<open>Chat: histories of the session map\<close>

text \<open>
  The life of the session map: it starts empty, and each request to send a message or to
  clear a history transforms it.
\<close>

datatype chat_event = Send chat_services chat_request | Clear string

fun apply_event :: "conversations \<Rightarrow> chat_event \<Rightarrow> conversations" where
  "apply_event convs (Send sv request) = snd (send_chat_message sv request convs)"
| "apply_event convs (Clear conversation_id) = clear_chat_history conversation_id convs"

definition run_events :: "chat_event list \<Rightarrow> conversations" where
  "run_events events = foldl apply_event Map.empty events"

text \<open>The invariant of the session map.\<close>

definition bounded :: "conversations \<Rightarrow> bool" where
  "bounded convs = (\<forall>i turns. convs i = Some turns \<longrightarrow> length turns \<le> 50)"

text \<open>A world for one chat request: search and theme lookups raise, the rest answers.\<close>

definition two_sources_fail :: chat_services where
  "two_sources_fail =
     \<lparr>chat_uuid = ''session-1'',
      ai_search_call = Inl UpstreamError,
      query_embedding_call = Inr (ApiResult True (Some [[0.5, 0.25]])),
      vectorize_query = Inr [\<lparr>vm_id = ''id-1'', vm_score = Val 0.75\<rparr>],
      feedback_query = Inr
        [\<lparr>fb_id = ''id-1'', fb_content = ''Cold starts are unbearable'',
          fb_source = ''github'', fb_sentiment = FloatNum (Finite (- 0.75)),
          fb_sentiment_label = ''frustrated'',
          fb_urgency = 8, fb_product = None, fb_themes = [],
          fb_customer_id = None, fb_customer_name = None,
          fb_customer_tier = Some ''enterprise'', fb_customer_arr = Some 250000,
          fb_status = ''new'', fb_metadata = [], fb_created_at = ''t0'',
          fb_updated_at = ''t1''\<rparr>],
      themes_query = Inl UpstreamError,
      stats_query = Inr [\<lparr>st_total = 12, st_avg_sentiment = Some (- 0.25), st_critical = 3\<rparr>],
      generation_call = (\<lambda>prompt context_items. Inr (ApiResult True (Some (Some ''Cold starts.''))))\<rparr>"

definition hello :: chat_request where
  "hello = \<lparr>cr_message = ''What are our biggest issues this week?'', cr_conversation_id = None\<rparr>"

definition answered :: "chat_turn list" where
  "answered =
     [\<lparr>turn_role = ''user'', turn_content = ''What are our biggest issues this week?''\<rparr>,
      \<lparr>turn_role = ''assistant'', turn_content = ''Cold starts.''\<rparr>]"

subsection \<open>Chat: contributions of the sources\<close>















section \<open>Properties\<close>

subsection \<open>Rounding to binary64\<close>

lemma double_of_eval:
  assumes "x \<noteq> 0" and "binade x = e" and "max (e - 52) (- 1074) = q"
    and "round_half_even (x / pow2 q) = m" and "of_int m * pow2 q = v"
    and "\<bar>v\<bar> < 2 ^ 1024"
  shows "double_of x = Finite v"
proof -
  have "\<not> v \<ge> 2 ^ 1024" and "\<not> v \<le> - (2 ^ 1024)"
    using assms(6) by auto
  with assms(1-5) show ?thesis
    by (simp add: double_of_def Let_def)
qed

lemma double_of_3_10: "double_of 0.3 = Finite (5404319552844595 / 2 ^ 54)"
proof (rule double_of_eval)
  show "(0.3 :: real) \<noteq> 0" by simp
  show "binade 0.3 = - 2" by (simp add: binade_def bit_length.simps)
  show "max (- 2 - 52) (- 1074) = (- 54 :: int)" by simp
  show "round_half_even (0.3 / pow2 (- 54)) = 5404319552844595"
    by (simp add: pow2_def round_half_even_def Let_def)
  show "of_int (5404319552844595) * pow2 (- 54) = (5404319552844595 / 2 ^ 54 :: real)"
    by (simp add: pow2_def)
  show "\<bar>5404319552844595 / 2 ^ 54 :: real\<bar> < 2 ^ 1024" by simp
qed

lemma double_of_1_10: "double_of 0.1 = Finite (3602879701896397 / 2 ^ 55)"
proof (rule double_of_eval)
  show "(0.1 :: real) \<noteq> 0" by simp
  show "binade 0.1 = - 4" by (simp add: binade_def bit_length.simps)
  show "max (- 4 - 52) (- 1074) = (- 56 :: int)" by simp
  show "round_half_even (0.1 / pow2 (- 56)) = 7205759403792794"
    by (simp add: pow2_def round_half_even_def Let_def)
  show "of_int (7205759403792794) * pow2 (- 56) = (3602879701896397 / 2 ^ 55 :: real)"
    by (simp add: pow2_def)
  show "\<bar>3602879701896397 / 2 ^ 55 :: real\<bar> < 2 ^ 1024" by simp
qed

lemma double_of_1_2: "double_of 0.5 = Finite (1 / 2)"
proof (rule double_of_eval)
  show "(0.5 :: real) \<noteq> 0" by simp
  show "binade 0.5 = - 1" by (simp add: binade_def bit_length.simps)
  show "max (- 1 - 52) (- 1074) = (- 53 :: int)" by simp
  show "round_half_even (0.5 / pow2 (- 53)) = 4503599627370496"
    by (simp add: pow2_def round_half_even_def Let_def)
  show "of_int (4503599627370496) * pow2 (- 53) = (1 / 2 :: real)"
    by (simp add: pow2_def)
  show "\<bar>1 / 2 :: real\<bar> < 2 ^ 1024" by simp
qed

lemma double_of_m3_10: "double_of (- 0.3) = Finite (- (5404319552844595 / 2 ^ 54))"
proof (rule double_of_eval)
  show "(- 0.3 :: real) \<noteq> 0" by simp
  show "binade (- 0.3) = - 2" by (simp add: binade_def bit_length.simps)
  show "max (- 2 - 52) (- 1074) = (- 54 :: int)" by simp
  show "round_half_even ((- 0.3) / pow2 (- 54)) = - 5404319552844595"
    by (simp add: pow2_def round_half_even_def Let_def)
  show "of_int (- 5404319552844595) * pow2 (- 54) = (- (5404319552844595 / 2 ^ 54) :: real)"
    by (simp add: pow2_def)
  show "\<bar>- (5404319552844595 / 2 ^ 54) :: real\<bar> < 2 ^ 1024" by simp
qed

lemma double_of_m1_10: "double_of (- 0.1) = Finite (- (3602879701896397 / 2 ^ 55))"
proof (rule double_of_eval)
  show "(- 0.1 :: real) \<noteq> 0" by simp
  show "binade (- 0.1) = - 4" by (simp add: binade_def bit_length.simps)
  show "max (- 4 - 52) (- 1074) = (- 56 :: int)" by simp
  show "round_half_even ((- 0.1) / pow2 (- 56)) = - 7205759403792794"
    by (simp add: pow2_def round_half_even_def Let_def)
  show "of_int (- 7205759403792794) * pow2 (- 56) = (- (3602879701896397 / 2 ^ 55) :: real)"
    by (simp add: pow2_def)
  show "\<bar>- (3602879701896397 / 2 ^ 55) :: real\<bar> < 2 ^ 1024" by simp
qed

lemma double_of_m1_2: "double_of (- 0.5) = Finite (- (1 / 2))"
proof (rule double_of_eval)
  show "(- 0.5 :: real) \<noteq> 0" by simp
  show "binade (- 0.5) = - 1" by (simp add: binade_def bit_length.simps)
  show "max (- 1 - 52) (- 1074) = (- 53 :: int)" by simp
  show "round_half_even ((- 0.5) / pow2 (- 53)) = - 4503599627370496"
    by (simp add: pow2_def round_half_even_def Let_def)
  show "of_int (- 4503599627370496) * pow2 (- 53) = (- (1 / 2) :: real)"
    by (simp add: pow2_def)
  show "\<bar>- (1 / 2) :: real\<bar> < 2 ^ 1024" by simp
qed

lemma double_of_9_10: "double_of 0.9 = Finite (8106479329266893 / 2 ^ 53)"
proof (rule double_of_eval)
  show "(0.9 :: real) \<noteq> 0" by simp
  show "binade 0.9 = - 1" by (simp add: binade_def bit_length.simps)
  show "max (- 1 - 52) (- 1074) = (- 53 :: int)" by simp
  show "round_half_even (0.9 / pow2 (- 53)) = 8106479329266893"
    by (simp add: pow2_def round_half_even_def Let_def)
  show "of_int (8106479329266893) * pow2 (- 53) = (8106479329266893 / 2 ^ 53 :: real)"
    by (simp add: pow2_def)
  show "\<bar>8106479329266893 / 2 ^ 53 :: real\<bar> < 2 ^ 1024" by simp
qed

lemma double_of_35_100: "double_of 0.35 = Finite (3152519739159347 / 2 ^ 53)"
proof (rule double_of_eval)
  show "(0.35 :: real) \<noteq> 0" by simp
  show "binade 0.35 = - 2" by (simp add: binade_def bit_length.simps)
  show "max (- 2 - 52) (- 1074) = (- 54 :: int)" by simp
  show "round_half_even (0.35 / pow2 (- 54)) = 6305039478318694"
    by (simp add: pow2_def round_half_even_def Let_def)
  show "of_int (6305039478318694) * pow2 (- 54) = (3152519739159347 / 2 ^ 53 :: real)"
    by (simp add: pow2_def)
  show "\<bar>3152519739159347 / 2 ^ 53 :: real\<bar> < 2 ^ 1024" by simp
qed

lemma double_of_65_100: "double_of 0.65 = Finite (5854679515581645 / 2 ^ 53)"
proof (rule double_of_eval)
  show "(0.65 :: real) \<noteq> 0" by simp
  show "binade 0.65 = - 1" by (simp add: binade_def bit_length.simps)
  show "max (- 1 - 52) (- 1074) = (- 53 :: int)" by simp
  show "round_half_even (0.65 / pow2 (- 53)) = 5854679515581645"
    by (simp add: pow2_def round_half_even_def Let_def)
  show "of_int (5854679515581645) * pow2 (- 53) = (5854679515581645 / 2 ^ 53 :: real)"
    by (simp add: pow2_def)
  show "\<bar>5854679515581645 / 2 ^ 53 :: real\<bar> < 2 ^ 1024" by simp
qed

lemma double_of_3_4: "double_of 0.75 = Finite (3 / 4)"
proof (rule double_of_eval)
  show "(0.75 :: real) \<noteq> 0" by simp
  show "binade 0.75 = - 1" by (simp add: binade_def bit_length.simps)
  show "max (- 1 - 52) (- 1074) = (- 53 :: int)" by simp
  show "round_half_even (0.75 / pow2 (- 53)) = 6755399441055744"
    by (simp add: pow2_def round_half_even_def Let_def)
  show "of_int (6755399441055744) * pow2 (- 53) = (3 / 4 :: real)"
    by (simp add: pow2_def)
  show "\<bar>3 / 4 :: real\<bar> < 2 ^ 1024" by simp
qed

lemma double_of_below_quarter: "double_of 0.24999999999999997 = Finite (9007199254740991 / 2 ^ 55)"
proof (rule double_of_eval)
  show "(0.24999999999999997 :: real) \<noteq> 0" by simp
  show "binade 0.24999999999999997 = - 3" by (simp add: binade_def bit_length.simps)
  show "max (- 3 - 52) (- 1074) = (- 55 :: int)" by simp
  show "round_half_even (0.24999999999999997 / pow2 (- 55)) = 9007199254740991"
    by (simp add: pow2_def round_half_even_def Let_def)
  show "of_int (9007199254740991) * pow2 (- 55) = (9007199254740991 / 2 ^ 55 :: real)"
    by (simp add: pow2_def)
  show "\<bar>9007199254740991 / 2 ^ 55 :: real\<bar> < 2 ^ 1024" by simp
qed

lemma difference_1_9: "double_of (3602879701896397 / 2 ^ 55 - 8106479329266893 / 2 ^ 53) = Finite (- (3602879701896397 / 2 ^ 52))"
proof (rule double_of_eval)
  show "(3602879701896397 / 2 ^ 55 - 8106479329266893 / 2 ^ 53 :: real) \<noteq> 0" by simp
  show "binade (3602879701896397 / 2 ^ 55 - 8106479329266893 / 2 ^ 53) = - 1" by (simp add: binade_def bit_length.simps)
  show "max (- 1 - 52) (- 1074) = (- 53 :: int)" by simp
  show "round_half_even ((3602879701896397 / 2 ^ 55 - 8106479329266893 / 2 ^ 53) / pow2 (- 53)) = - 7205759403792794"
    by (simp add: pow2_def round_half_even_def Let_def)
  show "of_int (- 7205759403792794) * pow2 (- 53) = (- (3602879701896397 / 2 ^ 52) :: real)"
    by (simp add: pow2_def)
  show "\<bar>- (3602879701896397 / 2 ^ 52) :: real\<bar> < 2 ^ 1024" by simp
qed

lemma difference_35_65: "double_of (3152519739159347 / 2 ^ 53 - 5854679515581645 / 2 ^ 53) = Finite (- (1351079888211149 / 2 ^ 52))"
proof (rule double_of_eval)
  show "(3152519739159347 / 2 ^ 53 - 5854679515581645 / 2 ^ 53 :: real) \<noteq> 0" by simp
  show "binade (3152519739159347 / 2 ^ 53 - 5854679515581645 / 2 ^ 53) = - 2" by (simp add: binade_def bit_length.simps)
  show "max (- 2 - 52) (- 1074) = (- 54 :: int)" by simp
  show "round_half_even ((3152519739159347 / 2 ^ 53 - 5854679515581645 / 2 ^ 53) / pow2 (- 54)) = - 5404319552844596"
    by (simp add: pow2_def round_half_even_def Let_def)
  show "of_int (- 5404319552844596) * pow2 (- 54) = (- (1351079888211149 / 2 ^ 52) :: real)"
    by (simp add: pow2_def)
  show "\<bar>- (1351079888211149 / 2 ^ 52) :: real\<bar> < 2 ^ 1024" by simp
qed

lemma difference_quarter: "double_of (9007199254740991 / 2 ^ 55 - 3 / 4) = Finite (- (1 / 2))"
proof (rule double_of_eval)
  show "(9007199254740991 / 2 ^ 55 - 3 / 4 :: real) \<noteq> 0" by simp
  show "binade (9007199254740991 / 2 ^ 55 - 3 / 4) = - 1" by (simp add: binade_def bit_length.simps)
  show "max (- 1 - 52) (- 1074) = (- 53 :: int)" by simp
  show "round_half_even ((9007199254740991 / 2 ^ 55 - 3 / 4) / pow2 (- 53)) = - 4503599627370496"
    by (simp add: pow2_def round_half_even_def Let_def)
  show "of_int (- 4503599627370496) * pow2 (- 53) = (- (1 / 2) :: real)"
    by (simp add: pow2_def)
  show "\<bar>- (1 / 2) :: real\<bar> < 2 ^ 1024" by simp
qed


lemmas thresholds =
  double_of_3_10 double_of_1_10 double_of_1_2 double_of_m3_10 double_of_m1_10 double_of_m1_2

subsection \<open>Sentiment labels\<close>

lemma sentiment_label_first_match: "sentiment_label s = first_match spec_bands s"
  unfolding sentiment_label_def spec_bands_def above_def below_def thresholds
  by simp

text \<open>
  C1. For every score \<open>s\<close> the label is the one the ordered thresholds give, first match
  winning (\<open>s > 0.3\<close> positive, \<open>s < -0.5\<close> frustrated, \<open>s < -0.3\<close> concerned,
  \<open>s < -0.1\<close> annoyed, \<open>s < 0.1\<close> neutral, otherwise positive); a successful analysis
  carries that label for the score \<open>P(positive) - P(negative)\<close>, the difference the
  program computes; and the boundary values -0.5, -0.3, -0.1, 0.1, 0.3 get concerned,
  annoyed, neutral, positive, positive.
\<close>

theorem sentiment_label_thresholds:
  "sentiment_label s = first_match spec_bands s
   \<and> analyze_sentiment (Inr (ApiResult True (Some (body # rest)))) =
       (case num_sub (first_score ''POSITIVE'' (read_scores body))
                     (first_score ''NEGATIVE'' (read_scores body)) of
          Inl e \<Rightarrow> Inl e
        | Inr score \<Rightarrow>
            Inr \<lparr>sr_score = score, sr_label = first_match spec_bands score,
                 sr_raw_scores = read_scores body\<rparr>)
   \<and> num_sub (FloatNum (Finite p)) (FloatNum (Finite n)) = Inr (FloatNum (double_of (p - n)))
   \<and> sentiment_label (FloatNum (double_of (-0.5))) = ''concerned''
   \<and> sentiment_label (FloatNum (double_of (-0.3))) = ''annoyed''
   \<and> sentiment_label (FloatNum (double_of (-0.1))) = ''neutral''
   \<and> sentiment_label (FloatNum (double_of 0.1)) = ''positive''
   \<and> sentiment_label (FloatNum (double_of 0.3)) = ''positive''"
proof -
  have bands: "\<And>x. sentiment_label x = first_match spec_bands x"
    by (rule sentiment_label_first_match)
  have run: "analyze_sentiment (Inr (ApiResult True (Some (body # rest)))) =
       (case num_sub (first_score ''POSITIVE'' (read_scores body))
                     (first_score ''NEGATIVE'' (read_scores body)) of
          Inl e \<Rightarrow> Inl e
        | Inr score \<Rightarrow>
            Inr \<lparr>sr_score = score, sr_label = first_match spec_bands score,
                 sr_raw_scores = read_scores body\<rparr>)"
    by (simp add: analyze_sentiment_def Let_def bands split: sum.splits)
  have sub: "num_sub (FloatNum (Finite p)) (FloatNum (Finite n)) =
      Inr (FloatNum (double_of (p - n)))"
    by simp
  have b1: "sentiment_label (FloatNum (double_of (-0.5))) = ''concerned''"
    unfolding sentiment_label_def thresholds by (simp add: num_less_def)
  have b2: "sentiment_label (FloatNum (double_of (-0.3))) = ''annoyed''"
    unfolding sentiment_label_def thresholds by (simp add: num_less_def)
  have b3: "sentiment_label (FloatNum (double_of (-0.1))) = ''neutral''"
    unfolding sentiment_label_def thresholds by (simp add: num_less_def)
  have b4: "sentiment_label (FloatNum (double_of 0.1)) = ''positive''"
    unfolding sentiment_label_def thresholds by (simp add: num_less_def)
  have b5: "sentiment_label (FloatNum (double_of 0.3)) = ''positive''"
    unfolding sentiment_label_def thresholds by (simp add: num_less_def)
  from bands run sub b1 b2 b3 b4 b5 show ?thesis by blast
qed

text \<open>
  The score is the rounded difference of the two floats read, and the label is the
  label of that float. The scores 0.35 and 0.65 give -0.30000000000000004, below the
  bound -0.3; the scores 0.24999999999999997 and 0.75 give exactly -0.5, which is not
  below the bound -0.5.
\<close>

lemma analyze_sentiment_scores:
  assumes "read_scores body = scores"
    and "first_score ''POSITIVE'' scores = positive"
    and "first_score ''NEGATIVE'' scores = negative"
    and "num_sub positive negative = Inr score"
    and "sentiment_label score = l"
  shows "analyze_sentiment (Inr (ApiResult True (Some (body # rest)))) =
         Inr \<lparr>sr_score = score, sr_label = l, sr_raw_scores = scores\<rparr>"
  using assms by (simp add: analyze_sentiment_def Let_def)

lemma rounded_difference_35_65:
  "analyze_sentiment (Inr (ApiResult True (Some
      [[(''POSITIVE'', FloatNum (Finite 0.35)), (''NEGATIVE'', FloatNum (Finite 0.65))]]))) =
   Inr \<lparr>sr_score = FloatNum (Finite (- (1351079888211149 / 2 ^ 52))),
        sr_label = ''concerned'',
        sr_raw_scores =
          [(''POSITIVE'', FloatNum (Finite (3152519739159347 / 2 ^ 53))),
           (''NEGATIVE'', FloatNum (Finite (5854679515581645 / 2 ^ 53)))]\<rparr>"
proof (rule analyze_sentiment_scores)
  show "read_scores
      [(''POSITIVE'', FloatNum (Finite 0.35)), (''NEGATIVE'', FloatNum (Finite 0.65))] =
      [(''POSITIVE'', FloatNum (Finite (3152519739159347 / 2 ^ 53))),
       (''NEGATIVE'', FloatNum (Finite (5854679515581645 / 2 ^ 53)))]"
    unfolding read_scores_def list.map prod.case read_number.simps read_float.simps
      double_of_35_100 double_of_65_100
    by (rule refl)
  show "first_score ''POSITIVE''
      [(''POSITIVE'', FloatNum (Finite (3152519739159347 / 2 ^ 53))),
       (''NEGATIVE'', FloatNum (Finite (5854679515581645 / 2 ^ 53)))] =
      FloatNum (Finite (3152519739159347 / 2 ^ 53))"
    by simp
  show "first_score ''NEGATIVE''
      [(''POSITIVE'', FloatNum (Finite (3152519739159347 / 2 ^ 53))),
       (''NEGATIVE'', FloatNum (Finite (5854679515581645 / 2 ^ 53)))] =
      FloatNum (Finite (5854679515581645 / 2 ^ 53))"
    by simp
  show "num_sub (FloatNum (Finite (3152519739159347 / 2 ^ 53)))
      (FloatNum (Finite (5854679515581645 / 2 ^ 53))) =
      Inr (FloatNum (Finite (- (1351079888211149 / 2 ^ 52))))"
    unfolding num_sub.simps float_sub.simps difference_35_65 by (rule refl)
  show "sentiment_label (FloatNum (Finite (- (1351079888211149 / 2 ^ 52)))) = ''concerned''"
    unfolding sentiment_label_def thresholds by (simp add: num_less_def)
qed

lemma rounded_difference_quarter:
  "analyze_sentiment (Inr (ApiResult True (Some
      [[(''POSITIVE'', FloatNum (Finite 0.24999999999999997)),
        (''NEGATIVE'', FloatNum (Finite 0.75))]]))) =
   Inr \<lparr>sr_score = FloatNum (Finite (- (1 / 2))),
        sr_label = ''concerned'',
        sr_raw_scores =
          [(''POSITIVE'', FloatNum (Finite (9007199254740991 / 2 ^ 55))),
           (''NEGATIVE'', FloatNum (Finite (3 / 4)))]\<rparr>"
proof (rule analyze_sentiment_scores)
  show "read_scores
      [(''POSITIVE'', FloatNum (Finite 0.24999999999999997)),
       (''NEGATIVE'', FloatNum (Finite 0.75))] =
      [(''POSITIVE'', FloatNum (Finite (9007199254740991 / 2 ^ 55))),
       (''NEGATIVE'', FloatNum (Finite (3 / 4)))]"
    unfolding read_scores_def list.map prod.case read_number.simps read_float.simps
      double_of_below_quarter double_of_3_4
    by (rule refl)
  show "first_score ''POSITIVE''
      [(''POSITIVE'', FloatNum (Finite (9007199254740991 / 2 ^ 55))),
       (''NEGATIVE'', FloatNum (Finite (3 / 4)))] =
      FloatNum (Finite (9007199254740991 / 2 ^ 55))"
    by simp
  show "first_score ''NEGATIVE''
      [(''POSITIVE'', FloatNum (Finite (9007199254740991 / 2 ^ 55))),
       (''NEGATIVE'', FloatNum (Finite (3 / 4)))] =
      FloatNum (Finite (3 / 4))"
    by simp
  show "num_sub (FloatNum (Finite (9007199254740991 / 2 ^ 55))) (FloatNum (Finite (3 / 4))) =
      Inr (FloatNum (Finite (- (1 / 2))))"
    unfolding num_sub.simps float_sub.simps difference_quarter by (rule refl)
  show "sentiment_label (FloatNum (Finite (- (1 / 2)))) = ''concerned''"
    unfolding sentiment_label_def thresholds by (simp add: num_less_def)
qed

subsection \<open>Urgency scoring\<close>

lemma tier_default_range: "1 \<le> tier_default t \<and> tier_default t \<le> 10"
  by (simp add: tier_default_def)

lemma generate_text_response:
  "generate_text (Inr (ApiResult True (Some (Some r)))) = Inr r"
  by (simp add: generate_text_def)

text \<open>
  C6. Given a model response: when it does not parse as an integer, the urgency is the
  static default of the (lower-cased) tier, enterprise 7, pro 5, free 3, any other 5;
  when it parses to \<open>n\<close>, the urgency is \<open>n\<close> clamped into 1..10; in both cases the
  urgency returned lies in 1..10.
\<close>

theorem urgency_fallback_and_clamp:
  assumes "generate_text call = Inr response"
  shows "(py_int (py_strip response) = None \<longrightarrow>
            calculate_urgency call tier = Inr (tier_default (py_lower tier)))
       \<and> (\<forall>n. py_int (py_strip response) = Some n \<longrightarrow>
            calculate_urgency call tier = Inr (clamp_1_10 n))
       \<and> (\<exists>u. calculate_urgency call tier = Inr u \<and> 1 \<le> u \<and> u \<le> 10)
       \<and> tier_default ''enterprise'' = 7 \<and> tier_default ''pro'' = 5
       \<and> tier_default ''free'' = 3
       \<and> (t \<noteq> ''enterprise'' \<and> t \<noteq> ''pro'' \<and> t \<noteq> ''free'' \<longrightarrow> tier_default t = 5)"
proof -
  have fallback: "py_int (py_strip response) = None \<longrightarrow>
      calculate_urgency call tier = Inr (tier_default (py_lower tier))"
    using assms by (simp add: calculate_urgency_def)
  have clamp: "\<forall>n. py_int (py_strip response) = Some n \<longrightarrow>
      calculate_urgency call tier = Inr (clamp_1_10 n)"
    using assms by (auto simp: calculate_urgency_def clamp_1_10_def)
  have range: "\<exists>u. calculate_urgency call tier = Inr u \<and> 1 \<le> u \<and> u \<le> 10"
  proof (cases "py_int (py_strip response)")
    case None
    with fallback tier_default_range show ?thesis by simp
  next
    case (Some n)
    with clamp have "calculate_urgency call tier = Inr (clamp_1_10 n)" by simp
    moreover have "1 \<le> clamp_1_10 n \<and> clamp_1_10 n \<le> 10" by (simp add: clamp_1_10_def)
    ultimately show ?thesis by simp
  qed
  have defaults: "tier_default ''enterprise'' = 7 \<and> tier_default ''pro'' = 5
       \<and> tier_default ''free'' = 3
       \<and> (t \<noteq> ''enterprise'' \<and> t \<noteq> ''pro'' \<and> t \<noteq> ''free'' \<longrightarrow> tier_default t = 5)"
    by (simp add: tier_default_def)
  from fallback clamp range defaults show ?thesis by blast
qed

theorem urgency_fallback_and_clamp_witness:
  "calculate_urgency (Inr (ApiResult True (Some (Some '' 42 '')))) ''pro'' = Inr 10
   \<and> calculate_urgency (Inr (ApiResult True (Some (Some ''-3'')))) ''pro'' = Inr 1
   \<and> calculate_urgency (Inr (ApiResult True (Some (Some ''high'')))) ''Enterprise'' = Inr 7
   \<and> calculate_urgency (Inr (ApiResult True (Some (Some ''7.5'')))) ''unknown'' = Inr 5"
proof -
  note g = generate_text_response
  have p1: "py_int (py_strip '' 42 '') = Some 42" by code_simp
  have p2: "py_int (py_strip ''-3'') = Some (-3)" by code_simp
  have p3: "py_int (py_strip ''high'') = None" by code_simp
  have p4: "py_int (py_strip ''7.5'') = None" by code_simp
  have l3: "py_lower ''Enterprise'' = ''enterprise''" by code_simp
  have l4: "py_lower ''unknown'' = ''unknown''" by code_simp
  have d4: "tier_default ''unknown'' = 5" by (simp add: tier_default_def)
  show ?thesis
    using urgency_fallback_and_clamp [OF g, of " '' 42 ''" "''pro''" "''unknown''"]
      urgency_fallback_and_clamp [OF g, of "''-3''" "''pro''" "''unknown''"]
      urgency_fallback_and_clamp [OF g, of "''high''" "''Enterprise''" "''unknown''"]
      urgency_fallback_and_clamp [OF g, of "''7.5''" "''unknown''" "''unknown''"]
      p1 p2 p3 p4 l3 l4 d4
    by (simp add: clamp_1_10_def)
qed

subsection \<open>Theme classification\<close>

text \<open>
  C5. Given a model response that is not valid JSON, or that decodes to something other
  than an array, theme classification returns (it does not raise) exactly the
  one-element list \<open>["uncategorized"]\<close>.
\<close>

theorem themes_fallback:
  assumes "generate_text call = Inr response"
    and "json_loads (py_strip response) = None
         \<or> (\<exists>v. json_loads (py_strip response) = Some v \<and> (\<forall>xs. v \<noteq> JArr xs))"
  shows "classify_themes call = Inr uncategorized
         \<and> uncategorized = [JStr (map of_char ''uncategorized'')]"
  using assms by (auto simp: classify_themes_def uncategorized_def split: json.splits)

theorem themes_fallback_witness:
  "classify_themes (Inr (ApiResult True (Some (Some ''not json'')))) = Inr uncategorized
   \<and> classify_themes (Inr (ApiResult True (Some (Some ''{\"bug\": 1}'')))) = Inr uncategorized"
proof -
  note g = generate_text_response
  have p1: "json_loads (py_strip ''not json'') = None" by code_simp
  have p2: "json_loads (py_strip ''{\"bug\": 1}'') = Some (JObj [(map of_char ''bug'', JNum ''1'')])"
    by code_simp
  have h2: "\<exists>v. json_loads (py_strip ''{\"bug\": 1}'') = Some v \<and> (\<forall>xs. v \<noteq> JArr xs)"
    using p2 by simp
  show ?thesis
    using themes_fallback [OF g, of "''not json''"] themes_fallback [OF g, of "''{\"bug\": 1}''"] p1 h2
    by blast
qed

text \<open>
  C4, as stated, fails: the response \<open>["speed"]\<close> is a JSON array, so it is returned as
  it is, and \<open>speed\<close> is neither in the vocabulary nor the fallback tag.
\<close>

theorem themes_outside_vocabulary:
  "classify_themes (Inr (ApiResult True (Some (Some ''[\"speed\"]'')))) =
     Inr [JStr (map of_char ''speed'')]
   \<and> \<not> in_vocabulary [JStr (map of_char ''speed'')]"
proof -
  have p: "json_loads (py_strip ''[\"speed\"]'') = Some (JArr [JStr (map of_char ''speed'')])"
    by code_simp
  have c: "classify_themes (Inr (ApiResult True (Some (Some ''[\"speed\"]'')))) =
     Inr [JStr (map of_char ''speed'')]"
    by (simp add: classify_themes_def generate_text_def p)
  have v: "\<not> in_vocabulary [JStr (map of_char ''speed'')]"
    by (simp add: in_vocabulary_def vocabulary_def uncategorized_def)
  from c v show ?thesis by simp
qed

text \<open>
  C4, amended. Given a model response, the theme list is the array the response decodes
  to, with the elements it has, or \<open>["uncategorized"]\<close> when the response does not
  decode to an array; so the themes lie within the vocabulary (or are the fallback)
  exactly when the array the model emitted does.
\<close>

theorem themes_are_decoded_array:
  assumes "generate_text call = Inr response"
  shows "(\<forall>xs. json_loads (py_strip response) = Some (JArr xs) \<longrightarrow>
            classify_themes call = Inr xs)
       \<and> ((\<forall>xs. json_loads (py_strip response) \<noteq> Some (JArr xs)) \<longrightarrow>
            classify_themes call = Inr uncategorized)
       \<and> (\<exists>themes. classify_themes call = Inr themes \<and>
            (in_vocabulary themes \<longleftrightarrow>
               (\<forall>xs. json_loads (py_strip response) = Some (JArr xs) \<longrightarrow> in_vocabulary xs)))"
  using assms
  by (auto simp: classify_themes_def in_vocabulary_def split: option.splits json.splits)

theorem themes_are_decoded_array_witness:
  "classify_themes (Inr (ApiResult True (Some (Some '' [\"bug\", \"pricing\"] '')))) =
     Inr [JStr (map of_char ''bug''), JStr (map of_char ''pricing'')]
   \<and> in_vocabulary [JStr (map of_char ''bug''), JStr (map of_char ''pricing'')]"
proof -
  have p: "json_loads (py_strip '' [\"bug\", \"pricing\"] '') =
      Some (JArr [JStr (map of_char ''bug''), JStr (map of_char ''pricing'')])"
    by code_simp
  have v: "in_vocabulary [JStr (map of_char ''bug''), JStr (map of_char ''pricing'')]"
    by (simp add: in_vocabulary_def vocabulary_def)
  show ?thesis
    using themes_are_decoded_array [OF generate_text_response, of " '' [\"bug\", \"pricing\"] ''"] p v
    by simp
qed

subsection \<open>Creating feedback\<close>

lemma all_calls_succeed_sentiment:
  "analyze_sentiment (sentiment_call all_calls_succeed) =
   Inr \<lparr>sr_score = FloatNum (Finite (- (3602879701896397 / 2 ^ 52))),
        sr_label = ''frustrated'',
        sr_raw_scores =
          [(''NEGATIVE'', FloatNum (Finite (8106479329266893 / 2 ^ 53))),
           (''POSITIVE'', FloatNum (Finite (3602879701896397 / 2 ^ 55)))]\<rparr>"
proof -
  have c: "sentiment_call all_calls_succeed = Inr (ApiResult True (Some
      [[(''NEGATIVE'', FloatNum (Finite 0.9)), (''POSITIVE'', FloatNum (Finite 0.1))]]))"
    by (simp add: all_calls_succeed_def)
  show ?thesis
    unfolding c
  proof (rule analyze_sentiment_scores)
    show "read_scores
        [(''NEGATIVE'', FloatNum (Finite 0.9)), (''POSITIVE'', FloatNum (Finite 0.1))] =
        [(''NEGATIVE'', FloatNum (Finite (8106479329266893 / 2 ^ 53))),
         (''POSITIVE'', FloatNum (Finite (3602879701896397 / 2 ^ 55)))]"
      unfolding read_scores_def list.map prod.case read_number.simps read_float.simps
        double_of_9_10 double_of_1_10
      by (rule refl)
    show "first_score ''POSITIVE''
        [(''NEGATIVE'', FloatNum (Finite (8106479329266893 / 2 ^ 53))),
         (''POSITIVE'', FloatNum (Finite (3602879701896397 / 2 ^ 55)))] =
        FloatNum (Finite (3602879701896397 / 2 ^ 55))"
      by simp
    show "first_score ''NEGATIVE''
        [(''NEGATIVE'', FloatNum (Finite (8106479329266893 / 2 ^ 53))),
         (''POSITIVE'', FloatNum (Finite (3602879701896397 / 2 ^ 55)))] =
        FloatNum (Finite (8106479329266893 / 2 ^ 53))"
      by simp
    show "num_sub (FloatNum (Finite (3602879701896397 / 2 ^ 55)))
        (FloatNum (Finite (8106479329266893 / 2 ^ 53))) =
        Inr (FloatNum (Finite (- (3602879701896397 / 2 ^ 52))))"
      unfolding num_sub.simps float_sub.simps difference_1_9 by (rule refl)
    show "sentiment_label (FloatNum (Finite (- (3602879701896397 / 2 ^ 52)))) = ''frustrated''"
      unfolding sentiment_label_def thresholds by (simp add: num_less_def)
  qed
qed

lemma all_calls_succeed_response:
  "fst (create_feedback all_calls_succeed cold_start_request empty_backend) =
   Inr \<lparr>fb_id = ''id-1'', fb_content = ''Cold starts are unbearable'',
        fb_source = ''github'',
        fb_sentiment = FloatNum (Finite (- (3602879701896397 / 2 ^ 52))),
        fb_sentiment_label = ''frustrated'',
        fb_urgency = 8, fb_product = None,
        fb_themes = [JStr (map of_char ''performance'')],
        fb_customer_id = None, fb_customer_name = None,
        fb_customer_tier = Some ''enterprise'', fb_customer_arr = Some 250000,
        fb_status = ''new'', fb_metadata = [], fb_created_at = ''t0'', fb_updated_at = ''t1''\<rparr>"
proof -
  have t: "json_loads (py_strip ''[\"performance\"]'') =
      Some (JArr [JStr (map of_char ''performance'')])"
    by code_simp
  have u: "py_int (py_strip ''8'') = Some 8" by code_simp
  have calls:
    "new_uuid all_calls_succeed = ''id-1''"
    "created_clock all_calls_succeed = ''t0''"
    "updated_clock all_calls_succeed = ''t1''"
    "queue_send all_calls_succeed = Inr ()"
    "themes_call all_calls_succeed = Inr (ApiResult True (Some (Some ''[\"performance\"]'')))"
    "urgency_call all_calls_succeed = Inr (ApiResult True (Some (Some ''8'')))"
    "embedding_call all_calls_succeed = Inr (ApiResult True (Some [[0.5, 0.25]]))"
    "d1_insert all_calls_succeed = Inr ()"
    "vectorize_insert all_calls_succeed = Inr ()"
    by (simp_all add: all_calls_succeed_def)
  show ?thesis
    by (simp add: create_feedback_def all_calls_succeed_sentiment calls cold_start_request_def
        empty_backend_def classify_themes_def calculate_urgency_def
        generate_text_def generate_embedding_def t u Let_def)
qed

text \<open>
  C2. When embedding generation fails, create-feedback fails, and the feedback table
  (and the vector index) is what it was before the request: a request id that had no
  row before has none afterwards. The embedding step stands before the insert.
\<close>

theorem embedding_failure_aborts_create:
  assumes "generate_embedding (embedding_call sv) = Inl e"
  shows "isl (fst (create_feedback sv feedback st))
       \<and> feedback_table (snd (create_feedback sv feedback st)) = feedback_table st
       \<and> vector_index (snd (create_feedback sv feedback st)) = vector_index st
       \<and> (get_feedback (new_uuid sv) st = Inl NotFound \<longrightarrow>
            get_feedback (new_uuid sv) (snd (create_feedback sv feedback st)) = Inl NotFound)"
proof -
  have tbl: "isl (fst (create_feedback sv feedback st))
       \<and> feedback_table (snd (create_feedback sv feedback st)) = feedback_table st
       \<and> vector_index (snd (create_feedback sv feedback st)) = vector_index st"
    using assms
    by (simp add: create_feedback_def Let_def split: sum.splits)
  then have "get_feedback (new_uuid sv) (snd (create_feedback sv feedback st)) =
      get_feedback (new_uuid sv) st"
    by (simp add: get_feedback_def)
  with tbl show ?thesis by simp
qed

theorem embedding_failure_aborts_create_witness:
  "isl (fst (create_feedback (all_calls_succeed\<lparr>embedding_call := Inl UpstreamError\<rparr>)
          cold_start_request empty_backend))
   \<and> get_feedback ''id-1''
       (snd (create_feedback (all_calls_succeed\<lparr>embedding_call := Inl UpstreamError\<rparr>)
          cold_start_request empty_backend)) = Inl NotFound"
proof -
  have e: "generate_embedding
      (embedding_call (all_calls_succeed\<lparr>embedding_call := Inl UpstreamError\<rparr>)) =
      Inl UpstreamError"
    by (simp add: generate_embedding_def)
  have n: "new_uuid (all_calls_succeed\<lparr>embedding_call := Inl UpstreamError\<rparr>) = ''id-1''"
    by (simp add: all_calls_succeed_def)
  have g: "get_feedback ''id-1'' empty_backend = Inl NotFound"
    by (simp add: get_feedback_def empty_backend_def)
  show ?thesis
    using embedding_failure_aborts_create [OF e, of cold_start_request empty_backend] n g
    by simp
qed

text \<open>
  C3, as stated, fails: with every other call succeeding, the request succeeds when
  the queue send succeeds and fails when the queue send fails.
\<close>

theorem queue_failure_fails_create:
  "fst (create_feedback (all_calls_succeed\<lparr>queue_send := Inl UpstreamError\<rparr>)
          cold_start_request empty_backend) = Inl UpstreamError
   \<and> \<not> isl (fst (create_feedback all_calls_succeed cold_start_request empty_backend))"
proof -
  have "fst (create_feedback (all_calls_succeed\<lparr>queue_send := Inl UpstreamError\<rparr>)
          cold_start_request empty_backend) = Inl UpstreamError"
    by (simp add: create_feedback_def)
  then show ?thesis by (simp add: all_calls_succeed_response)
qed

text \<open>
  C3, amended. The queue send is awaited first: when it fails, create-feedback fails
  with that failure, and nothing has been enqueued, stored or indexed.
\<close>

theorem queue_failure_aborts_create:
  "queue_send sv = Inl e \<Longrightarrow> create_feedback sv feedback st = (Inl e, st)"
  by (simp add: create_feedback_def)

theorem queue_failure_aborts_create_witness:
  "create_feedback (all_calls_succeed\<lparr>queue_send := Inl UpstreamError\<rparr>)
     cold_start_request empty_backend = (Inl UpstreamError, empty_backend)"
  using queue_failure_aborts_create
    [of "all_calls_succeed\<lparr>queue_send := Inl UpstreamError\<rparr>" UpstreamError
        cold_start_request empty_backend]
  by simp

subsection \<open>Deduplication of sources\<close>

lemma unique_sources_first_occurrences:
  "unique_sources seen sources =
   first_occurrences (filter (\<lambda>t. cs_id t \<notin> seen) sources)"
proof (induction sources arbitrary: seen)
  case Nil
  show ?case by simp
next
  case (Cons s sources)
  show ?case
  proof (cases "cs_id s \<in> seen")
    case True
    with Cons show ?thesis by simp
  next
    case False
    have "filter (\<lambda>t. cs_id t \<noteq> cs_id s) (filter (\<lambda>t. cs_id t \<notin> seen) sources) =
          filter (\<lambda>t. cs_id t \<notin> insert (cs_id s) seen) sources"
      by (induction sources) auto
    with False Cons show ?thesis by simp
  qed
qed

lemma unique_sources_ids:
  "set (map cs_id (unique_sources seen sources)) = set (map cs_id sources) - seen"
  by (induction sources arbitrary: seen) auto

lemma unique_sources_distinct: "distinct (map cs_id (unique_sources seen sources))"
proof (induction sources arbitrary: seen)
  case Nil
  show ?case by simp
next
  case (Cons s sources)
  have "cs_id s \<notin> set (map cs_id (unique_sources (insert (cs_id s) seen) sources))"
    unfolding unique_sources_ids by simp
  with Cons show ?case by simp
qed

text \<open>
  C8. Deduplication keeps, for each id, its first occurrence, in the original order:
  it equals the first-occurrence filter of the specification, the ids kept are distinct
  and are all the ids gathered; the sources returned are the first 10 of that list; and
  ids A, B, A, C give A, B, C.
\<close>

theorem dedup_first_occurrence_wins:
  "unique_sources {} sources = first_occurrences sources
   \<and> snd (retrieve_context sv) = take 10 (first_occurrences (snd (gather sv)))
   \<and> length (snd (retrieve_context sv)) \<le> 10
   \<and> distinct (map cs_id (snd (retrieve_context sv)))
   \<and> set (map cs_id (unique_sources {} sources)) = set (map cs_id sources)
   \<and> unique_sources {} [source_with_id ''A'' ''first'', source_with_id ''B'' ''second'', source_with_id ''A'' ''third'', source_with_id ''C'' ''fourth''] =
       [source_with_id ''A'' ''first'', source_with_id ''B'' ''second'', source_with_id ''C'' ''fourth'']"
proof -
  have eq: "\<And>xs. unique_sources {} xs = first_occurrences xs"
    by (simp add: unique_sources_first_occurrences)
  have rc: "snd (retrieve_context sv) = take 10 (unique_sources {} (snd (gather sv)))"
    by (simp add: retrieve_context_def split: prod.splits)
  have len: "length (snd (retrieve_context sv)) \<le> 10"
    by (simp add: rc)
  have dist: "distinct (map cs_id (snd (retrieve_context sv)))"
    unfolding rc take_map [symmetric] by (rule distinct_take) (rule unique_sources_distinct)
  have ids: "set (map cs_id (unique_sources {} sources)) = set (map cs_id sources)"
    using unique_sources_ids [of "{}" sources] by simp
  have ex: "unique_sources {} [source_with_id ''A'' ''first'', source_with_id ''B'' ''second'', source_with_id ''A'' ''third'', source_with_id ''C'' ''fourth''] =
       [source_with_id ''A'' ''first'', source_with_id ''B'' ''second'', source_with_id ''C'' ''fourth'']"
    by (simp add: source_with_id_def)
  from eq rc len dist ids ex show ?thesis by simp
qed

subsection \<open>Session bounds\<close>

lemma length_last_n: "length (last_n n xs) = min n (length xs)"
  by (simp add: last_n_def)

lemma last_n_suffix: "xs = take (length xs - n) xs @ last_n n xs"
  by (simp add: last_n_def)

lemma send_chat_message_state:
  "snd (send_chat_message sv request convs) =
     (let i = conversation_id_of sv request;
          stored = (case convs i of None \<Rightarrow> [] | Some turns \<Rightarrow> turns)
      in case generate_text (generation_call sv (full_prompt (cr_message request) (last_n 10 stored))
                               (fst (retrieve_context sv))) of
           Inl e \<Rightarrow> convs(i \<mapsto> stored)
         | Inr response \<Rightarrow>
             convs(i \<mapsto> last_n 50 (stored @
               [\<lparr>turn_role = ''user'', turn_content = cr_message request\<rparr>,
                \<lparr>turn_role = ''assistant'', turn_content = response\<rparr>])))"
  by (auto simp: send_chat_message_def Let_def last_n_def fun_upd_idem
      split: option.splits sum.splits prod.splits)

lemma send_chat_message_outcome:
  "fst (send_chat_message sv request convs) =
     (let i = conversation_id_of sv request;
          stored = (case convs i of None \<Rightarrow> [] | Some turns \<Rightarrow> turns)
      in case generate_text (generation_call sv (full_prompt (cr_message request) (last_n 10 stored))
                               (fst (retrieve_context sv))) of
           Inl e \<Rightarrow> Inl e
         | Inr response \<Rightarrow>
             Inr \<lparr>rs_message = response, rs_sources = snd (retrieve_context sv),
                  rs_conversation_id = i\<rparr>)"
  by (auto simp: send_chat_message_def Let_def split: option.splits sum.splits prod.splits)

lemma bounded_send: "bounded convs \<Longrightarrow> bounded (snd (send_chat_message sv request convs))"
  unfolding send_chat_message_state
  by (auto simp: bounded_def Let_def length_last_n split: sum.splits option.splits)

lemma bounded_apply: "bounded convs \<Longrightarrow> bounded (apply_event convs ev)"
proof (cases ev)
  case (Send sv request)
  assume "bounded convs"
  with Send show ?thesis by (simp add: bounded_send)
next
  case (Clear i)
  assume "bounded convs"
  with Clear show ?thesis by (simp add: bounded_def clear_chat_history_def)
qed

lemma bounded_foldl: "bounded convs \<Longrightarrow> bounded (foldl apply_event convs events)"
  by (induction events arbitrary: convs) (simp_all add: bounded_apply)

lemma bounded_run: "bounded (run_events events)"
  unfolding run_events_def by (rule bounded_foldl) (simp add: bounded_def)

text \<open>
  C9. After any sequence of chat requests and clears from the empty session map, every
  stored history has at most 50 turns; the history replayed into the prompt is its last
  10 turns at most; and a successful request stores the last 50 turns of the history
  with the user and assistant turns appended, so the oldest are the ones evicted.
\<close>

theorem session_turns_bounded:
  assumes "run_events events i = Some turns"
  shows "length turns \<le> 50
       \<and> length (last_n 10 turns) \<le> 10
       \<and> (\<exists>older. turns = older @ last_n 10 turns)
       \<and> (\<forall>response.
            i \<noteq> [] \<and>
            generate_text (generation_call sv (full_prompt message (last_n 10 turns))
              (fst (retrieve_context sv))) = Inr response \<longrightarrow>
            snd (send_chat_message sv \<lparr>cr_message = message, cr_conversation_id = Some i\<rparr>
                   (run_events events)) i =
              Some (last_n 50 (turns @
                [\<lparr>turn_role = ''user'', turn_content = message\<rparr>,
                 \<lparr>turn_role = ''assistant'', turn_content = response\<rparr>])))"
proof -
  have b: "length turns \<le> 50"
    using bounded_run [of events] assms by (simp add: bounded_def)
  have r: "length (last_n 10 turns) \<le> 10" by (simp add: length_last_n)
  have s: "\<exists>older. turns = older @ last_n 10 turns"
    using last_n_suffix [of turns 10] by blast
  have e: "\<forall>response.
            i \<noteq> [] \<and>
            generate_text (generation_call sv (full_prompt message (last_n 10 turns))
              (fst (retrieve_context sv))) = Inr response \<longrightarrow>
            snd (send_chat_message sv \<lparr>cr_message = message, cr_conversation_id = Some i\<rparr>
                   (run_events events)) i =
              Some (last_n 50 (turns @
                [\<lparr>turn_role = ''user'', turn_content = message\<rparr>,
                 \<lparr>turn_role = ''assistant'', turn_content = response\<rparr>]))"
    using assms by (auto simp: send_chat_message_state conversation_id_of_def Let_def)
  from b r s e show ?thesis by blast
qed

lemma run_one: "run_events [Send two_sources_fail hello] ''session-1'' = Some answered"
  by (simp add: run_events_def send_chat_message_state conversation_id_of_def
      two_sources_fail_def hello_def answered_def generate_text_def last_n_def Let_def)

theorem session_turns_bounded_witness:
  "length answered \<le> 50
   \<and> length (last_n 10 answered) \<le> 10
   \<and> snd (send_chat_message two_sources_fail
            \<lparr>cr_message = ''And last week?'', cr_conversation_id = Some ''session-1''\<rparr>
            (run_events [Send two_sources_fail hello])) ''session-1'' =
        Some (last_n 50 (answered @
          [\<lparr>turn_role = ''user'', turn_content = ''And last week?''\<rparr>,
           \<lparr>turn_role = ''assistant'', turn_content = ''Cold starts.''\<rparr>]))"
proof -
  have g: "generate_text (generation_call two_sources_fail
             (full_prompt ''And last week?'' (last_n 10 answered))
             (fst (retrieve_context two_sources_fail))) = Inr ''Cold starts.''"
    by (simp add: two_sources_fail_def generate_text_def)
  show ?thesis
    using session_turns_bounded [OF run_one, of two_sources_fail "''And last week?''"] g
    by simp
qed

subsection \<open>Failed generation\<close>

text \<open>
  C10. For a request whose conversation id (given, or freshly drawn) is not in the
  session map, a failed generation leaves the id in the map with an empty history:
  get-history on it gave not-found before the request and gives the empty list after.
\<close>

theorem failed_generation_leaves_empty_session:
  assumes "convs (conversation_id_of sv request) = None"
    and "generate_text (generation_call sv (cr_message request) (fst (retrieve_context sv))) = Inl e"
  shows "send_chat_message sv request convs =
           (Inl e, convs(conversation_id_of sv request \<mapsto> []))
       \<and> get_chat_history (conversation_id_of sv request) convs = Inl NotFound
       \<and> get_chat_history (conversation_id_of sv request)
            (snd (send_chat_message sv request convs)) = Inr []"
proof -
  let ?i = "conversation_id_of sv request"
  have f: "fst (send_chat_message sv request convs) = Inl e"
    using assms by (simp add: send_chat_message_outcome Let_def last_n_def full_prompt_def)
  have s: "snd (send_chat_message sv request convs) = convs(?i \<mapsto> [])"
    using assms by (simp add: send_chat_message_state Let_def last_n_def full_prompt_def)
  have p: "send_chat_message sv request convs = (Inl e, convs(?i \<mapsto> []))"
    using f s by (simp add: prod_eq_iff)
  have b: "get_chat_history ?i convs = Inl NotFound"
    using assms(1) by (simp add: get_chat_history_def)
  have a: "get_chat_history ?i (snd (send_chat_message sv request convs)) = Inr []"
    by (simp add: s get_chat_history_def)
  from p b a show ?thesis by simp
qed

theorem failed_generation_leaves_empty_session_witness:
  "send_chat_message (two_sources_fail\<lparr>generation_call := \<lambda>p c. Inl UpstreamError\<rparr>) hello Map.empty =
     (Inl UpstreamError, [''session-1'' \<mapsto> []])
   \<and> get_chat_history ''session-1''
        (snd (send_chat_message (two_sources_fail\<lparr>generation_call := \<lambda>p c. Inl UpstreamError\<rparr>)
           hello Map.empty)) = Inr []"
proof -
  have i: "conversation_id_of (two_sources_fail\<lparr>generation_call := \<lambda>p c. Inl UpstreamError\<rparr>) hello =
      ''session-1''"
    by (simp add: conversation_id_of_def two_sources_fail_def hello_def)
  have g: "generate_text (generation_call (two_sources_fail\<lparr>generation_call := \<lambda>p c. Inl UpstreamError\<rparr>)
      (cr_message hello)
      (fst (retrieve_context (two_sources_fail\<lparr>generation_call := \<lambda>p c. Inl UpstreamError\<rparr>)))) =
      Inl UpstreamError"
    by (simp add: generate_text_def)
  have n: "Map.empty (conversation_id_of
      (two_sources_fail\<lparr>generation_call := \<lambda>p c. Inl UpstreamError\<rparr>) hello) = None"
    by simp
  show ?thesis
    using failed_generation_leaves_empty_session [OF n g] i
    by (simp add: get_chat_history_def)
qed

subsection \<open>Failures of the context sources\<close>































end
